theory Spec2Isabelle
  imports Complex_Main
begin

section \<open>Job lifecycle: the status transition rule\<close>

text \<open>
  Embedding of \<^verbatim>\<open>src/utils/job.utils.js\<close>. Statuses are JavaScript strings and
  are kept as strings, so that a status outside every list is an input like any other.
\<close>

text \<open>\<^verbatim>\<open>Array.prototype.indexOf\<close>: the first position of the element, \<open>-1\<close> when absent.\<close>

fun indexOfFrom :: "'a list \<Rightarrow> 'a \<Rightarrow> int \<Rightarrow> int" where
  "indexOfFrom [] x i = - 1"
| "indexOfFrom (y # ys) x i = (if y = x then i else indexOfFrom ys x (i + 1))"

definition indexOf :: "'a list \<Rightarrow> 'a \<Rightarrow> int" where
  "indexOf xs x = indexOfFrom xs x 0"

text \<open>The constant \<^verbatim>\<open>statusOrder\<close> of \<^verbatim>\<open>isValidStatusTransition\<close>, as the source lists it.\<close>

definition statusOrder :: "string list" where
  "statusOrder =
     [''RECEIVED'', ''IN_PROGRESS'', ''WASHING'', ''DRYING'', ''COMPLETED'', ''DELIVERED'']"

definition isValidStatusTransition :: "string \<Rightarrow> string \<Rightarrow> bool" where
  "isValidStatusTransition currentStatus newStatus =
     (if newStatus = ''CANCELLED''
      then currentStatus \<noteq> ''DELIVERED'' \<and> currentStatus \<noteq> ''CANCELLED''
      else
        (let currentIndex = indexOf statusOrder currentStatus;
             newIndex = indexOf statusOrder newStatus
         in if currentIndex = - 1 \<or> newIndex = - 1 then False
            else newIndex \<ge> currentIndex))"

text \<open>The statuses the validator of \<^verbatim>\<open>PATCH /jobs/:id/status\<close> lets through.\<close>

definition statusValidatorList :: "string list" where
  "statusValidatorList =
     [''RECEIVED'', ''WORK_STARTED'', ''COMPLETED'', ''DELIVERED'', ''CANCELLED'']"

section \<open>The data model\<close>

text \<open>
  Documents of the collections the job subsystem reads and writes, with the fields the
  modelled code touches. ObjectIds are natural numbers, instants are milliseconds since
  the epoch, prices and minutes are integers.
\<close>

type_synonym oid = nat
type_synonym instant = int

record status_entry =
  hStatus :: string
  hNotes :: "string option"
  changedAt :: instant

record job_service =
  serviceId :: oid
  price :: int

record job =
  job_id :: oid
  businessId :: oid
  customerId :: oid
  carId :: oid
  tokenNumber :: string
  status :: string
  totalPrice :: int
  estimatedDelivery :: instant
  actualDelivery :: "instant option"
  beforeImages :: "string list"
  afterImages :: "string list"
  jobNotes :: "string option"
  assignedTo :: "oid option"
  services :: "job_service list"
  statusHistory :: "status_entry list"

record business =
  biz_id :: oid
  carHandlingCapacity :: string
  maxConcurrentJobs :: int

record customer =
  cust_id :: oid
  cust_businessId :: oid

record car =
  car_id :: oid
  car_businessId :: oid
  car_customerId :: oid

record service =
  svc_id :: oid
  svc_businessId :: oid
  svc_price :: int
  svc_maxTime :: int
  svc_isActive :: bool

record employee =
  user_id :: oid
  user_businessId :: oid
  user_role :: string

record db =
  businesses :: "business list"
  customers :: "customer list"
  cars :: "car list"
  serviceDocs :: "service list"
  users :: "employee list"
  jobs :: "job list"

section \<open>Token allocator\<close>

text \<open>
  \<^verbatim>\<open>Math.random()\<close> is a global source: the model threads the sequence of its
  future results and drops the head at every call. A result lies in \<open>[0, 1)\<close>
  (\<open>unitDraws\<close>); the functions are defined for every sequence.
\<close>

type_synonym rand = "nat \<Rightarrow> real"

definition advance :: "rand \<Rightarrow> rand" where
  "advance r = (\<lambda>n. r (Suc n))"

definition unitDraws :: "rand \<Rightarrow> bool" where
  "unitDraws r = (\<forall>n. 0 \<le> r n \<and> r n < 1)"

text \<open>\<^verbatim>\<open>String.prototype.charAt\<close>: the empty string outside the string.\<close>

definition charAt :: "string \<Rightarrow> int \<Rightarrow> string" where
  "charAt s i = (if 0 \<le> i \<and> i < int (length s) then [s ! nat i] else [])"

definition chars :: string where
  "chars = ''ABCDEFGHJKLMNPQRSTUVWXYZ23456789''"

fun generateRandomString :: "nat \<Rightarrow> rand \<Rightarrow> string \<times> rand" where
  "generateRandomString 0 r = ([], r)"
| "generateRandomString (Suc n) r =
     (let c = charAt chars \<lfloor>r 0 * real (length chars)\<rfloor>;
          (rest, r') = generateRandomString n (advance r)
      in (c @ rest, r'))"

text \<open>
  A \<^verbatim>\<open>Date\<close> read in UTC, with the calendar month counted from 1, and
  \<^verbatim>\<open>toISOString\<close>: four digits for the years 0 to 9999, a sign and six digits
  for the others.
\<close>

record js_date =
  dYear :: int
  dMonth :: nat
  dDay :: nat
  dHours :: nat
  dMinutes :: nat
  dSeconds :: nat
  dMillis :: nat

definition digitChar :: "nat \<Rightarrow> char" where
  "digitChar d = ''0123456789'' ! (d mod 10)"

definition pad2 :: "nat \<Rightarrow> string" where
  "pad2 n = [digitChar (n div 10), digitChar n]"

definition pad3 :: "nat \<Rightarrow> string" where
  "pad3 n = [digitChar (n div 100), digitChar (n div 10), digitChar n]"

definition pad4 :: "nat \<Rightarrow> string" where
  "pad4 n = [digitChar (n div 1000), digitChar (n div 100), digitChar (n div 10), digitChar n]"

definition pad6 :: "nat \<Rightarrow> string" where
  "pad6 n = [digitChar (n div 100000), digitChar (n div 10000), digitChar (n div 1000),
             digitChar (n div 100), digitChar (n div 10), digitChar n]"

definition isoYear :: "int \<Rightarrow> string" where
  "isoYear y = (if 0 \<le> y \<and> y \<le> 9999 then pad4 (nat y)
                else (if y < 0 then ''-'' else ''+'') @ pad6 (nat \<bar>y\<bar>))"

definition toISOString :: "js_date \<Rightarrow> string" where
  "toISOString d =
     isoYear (dYear d) @ ''-'' @ pad2 (dMonth d) @ ''-'' @ pad2 (dDay d) @ ''T''
     @ pad2 (dHours d) @ '':'' @ pad2 (dMinutes d) @ '':'' @ pad2 (dSeconds d)
     @ ''.'' @ pad3 (dMillis d) @ ''Z''"

text \<open>\<^verbatim>\<open>today.toISOString().split('T')[0].replace(/-/g, '')\<close>\<close>

definition dateStrOf :: "js_date \<Rightarrow> string" where
  "dateStrOf today =
     filter (\<lambda>c. c \<noteq> CHR ''-'') (takeWhile (\<lambda>c. c \<noteq> CHR ''T'') (toISOString today))"

text \<open>\<^verbatim>\<open>Date.now().toString(36).toUpperCase().slice(-4)\<close>\<close>

definition digits36 :: string where
  "digits36 = ''0123456789abcdefghijklmnopqrstuvwxyz''"

fun toString36 :: "nat \<Rightarrow> string" where
  "toString36 n =
     (if n < 36 then [digits36 ! n] else toString36 (n div 36) @ [digits36 ! (n mod 36)])"

declare toString36.simps [simp del]

definition upperChar :: "char \<Rightarrow> char" where
  "upperChar c =
     (case map_of (zip ''abcdefghijklmnopqrstuvwxyz'' ''ABCDEFGHIJKLMNOPQRSTUVWXYZ'') c of
        Some u \<Rightarrow> u | None \<Rightarrow> c)"

definition toUpperCase :: "string \<Rightarrow> string" where
  "toUpperCase s = map upperChar s"

definition sliceLast :: "nat \<Rightarrow> 'a list \<Rightarrow> 'a list" where
  "sliceLast n s = drop (length s - n) s"

text \<open>\<^verbatim>\<open>Job.findOne({ businessId, tokenNumber })\<close>\<close>

definition findJobByToken :: "job list \<Rightarrow> oid \<Rightarrow> string \<Rightarrow> job option" where
  "findJobByToken js bid tok = find (\<lambda>j. businessId j = bid \<and> tokenNumber j = tok) js"

text \<open>
  The clock readings of one call of \<^verbatim>\<open>generateTokenNumber\<close>: \<^verbatim>\<open>new Date()\<close>
  at its start and \<^verbatim>\<open>Date.now()\<close> on the fallback path.
\<close>

record clock =
  today :: js_date
  nowMs :: nat

definition maxTokenAttempts :: nat where
  "maxTokenAttempts = 10"

text \<open>
  The \<^verbatim>\<open>while (attempts < maxAttempts)\<close> loop of \<^verbatim>\<open>generateTokenNumber\<close>:
  \<open>Some\<close> the token it returns from inside the loop, \<open>None\<close> when it falls through.
\<close>

function tokenLoop :: "job list \<Rightarrow> oid \<Rightarrow> string \<Rightarrow> rand \<Rightarrow> nat \<Rightarrow> string option \<times> rand" where
  "tokenLoop js bid dateStr r attempts =
     (if attempts < maxTokenAttempts then
        (let (randomSuffix, r') = generateRandomString 6 r;
             token = dateStr @ ''-'' @ randomSuffix
         in if findJobByToken js bid token = None then (Some token, r')
            else tokenLoop js bid dateStr r' (attempts + 1))
      else (None, r))"
  by pat_completeness auto
termination
  by (relation "measure (\<lambda>(js, bid, dateStr, r, attempts). maxTokenAttempts - attempts)") auto

declare tokenLoop.simps [simp del]

definition fallbackToken :: "string \<Rightarrow> nat \<Rightarrow> rand \<Rightarrow> string \<times> rand" where
  "fallbackToken dateStr ms r =
     (let timestamp = sliceLast 4 (toUpperCase (toString36 ms));
          (randomSuffix, r') = generateRandomString 4 r
      in (dateStr @ ''-'' @ timestamp @ randomSuffix, r'))"

definition generateTokenNumber :: "job list \<Rightarrow> oid \<Rightarrow> clock \<Rightarrow> rand \<Rightarrow> string \<times> rand" where
  "generateTokenNumber js bid clk r =
     (let dateStr = dateStrOf (today clk) in
      case tokenLoop js bid dateStr r 0 of
        (Some token, r') \<Rightarrow> (token, r')
      | (None, r') \<Rightarrow> fallbackToken dateStr (nowMs clk) r')"

section \<open>Capacity gate\<close>

text \<open>The result object \<^verbatim>\<open>{ canAccept, reason }\<close>; \<open>reason\<close> is absent on acceptance.\<close>

record capacity_check =
  canAccept :: bool
  reason :: "string option"

text \<open>Decimal rendering of a number inside a template string.\<close>

fun showNat :: "nat \<Rightarrow> string" where
  "showNat n = (if n < 10 then [digitChar n] else showNat (n div 10) @ [digitChar n])"

declare showNat.simps [simp del]

definition showInt :: "int \<Rightarrow> string" where
  "showInt i = (if i < 0 then ''-'' @ showNat (nat (- i)) else showNat (nat i))"

definition findBusinessById :: "business list \<Rightarrow> oid \<Rightarrow> business option" where
  "findBusinessById bs i = find (\<lambda>b. biz_id b = i) bs"

text \<open>\<^verbatim>\<open>Job.countDocuments({ businessId, status: { $nin: [...] } })\<close>\<close>

definition activeJobsCount :: "job list \<Rightarrow> oid \<Rightarrow> nat" where
  "activeJobsCount js bid =
     length (filter (\<lambda>j. businessId j = bid
                          \<and> status j \<notin> set [''COMPLETED'', ''DELIVERED'', ''CANCELLED'']) js)"

definition canAcceptNewJob :: "db \<Rightarrow> oid \<Rightarrow> capacity_check" where
  "canAcceptNewJob d bid =
     (case findBusinessById (businesses d) bid of
        None \<Rightarrow> \<lparr>canAccept = False, reason = Some ''Business not found''\<rparr>
      | Some b \<Rightarrow>
          (let activeJobs = activeJobsCount (jobs d) bid in
           if carHandlingCapacity b = ''SINGLE'' then
             (if activeJobs \<ge> 1
              then \<lparr>canAccept = False, reason = Some ''Another job is already in progress''\<rparr>
              else \<lparr>canAccept = True, reason = None\<rparr>)
           else
             (if int activeJobs \<ge> maxConcurrentJobs b
              then \<lparr>canAccept = False,
                     reason = Some (''Maximum capacity of '' @ showInt (maxConcurrentJobs b)
                                    @ '' jobs reached'')\<rparr>
              else \<lparr>canAccept = True, reason = None\<rparr>)))"

section \<open>The job routes\<close>

text \<open>
  Embedding of \<^verbatim>\<open>POST /jobs\<close> and \<^verbatim>\<open>PATCH /jobs/:id/status\<close>
  of the admin routes. A handler takes the database and returns the response with the
  database it leaves. The WhatsApp notification after a successful write is wrapped in
  a \<^verbatim>\<open>try\<close> that swallows its failures and touches no job; it is left out, as is
  the \<^verbatim>\<open>populate\<close> of the references for the response body.
\<close>

datatype payload = Errors | Message string | JobBody job

datatype response = Resp nat payload

fun statusCode :: "response \<Rightarrow> nat" where
  "statusCode (Resp c b) = c"

record request_ctx =
  reqBusinessId :: oid
  reqUserId :: oid
  reqUserRole :: string

text \<open>A thrown error with its \<^verbatim>\<open>code\<close> property (absent on most errors) and message.\<close>

datatype js_error = JsError "nat option" string

fun errorCode :: "js_error \<Rightarrow> nat option" where
  "errorCode (JsError c m) = c"

subsection \<open>Creating a job\<close>

text \<open>
  An id as a request body carries it: a string that casts to an ObjectId, a string that
  does not, or the empty string. A query casts the ids of its filter and throws a
  \<^verbatim>\<open>CastError\<close> when one does not cast.
\<close>

datatype body_id = IdOk oid | IdMalformed | IdEmpty

fun castObjectId :: "body_id \<Rightarrow> oid option" where
  "castObjectId (IdOk i) = Some i"
| "castObjectId IdMalformed = None"
| "castObjectId IdEmpty = None"

fun castIds :: "body_id list \<Rightarrow> oid list option" where
  "castIds [] = Some []"
| "castIds (x # xs) =
     (case castObjectId x of
        None \<Rightarrow> None
      | Some i \<Rightarrow> (case castIds xs of None \<Rightarrow> None | Some ids \<Rightarrow> Some (i # ids)))"

record create_body =
  cbCustomerId :: body_id
  cbCarId :: body_id
  cbServiceIds :: "body_id list"
  cbBeforeImages :: "string list"
  cbNotes :: "string option"
  cbEstimatedDelivery :: "instant option"
  cbAssignedTo :: "oid option"

text \<open>
  The validators: \<^verbatim>\<open>customerId\<close> and \<^verbatim>\<open>carId\<close> are not empty,
  \<^verbatim>\<open>serviceIds\<close> is an array of at least one entry (of any strings),
  \<^verbatim>\<open>beforeImages\<close> one of at least two. An \<^verbatim>\<open>estimatedDelivery\<close> that is
  present has passed \<^verbatim>\<open>isISO8601\<close> and parses, an \<^verbatim>\<open>assignedTo\<close> that is present
  has passed \<^verbatim>\<open>isMongoId\<close>.
\<close>

definition createValidators :: "create_body \<Rightarrow> bool" where
  "createValidators body =
     (cbCustomerId body \<noteq> IdEmpty \<and> cbCarId body \<noteq> IdEmpty
      \<and> 1 \<le> length (cbServiceIds body) \<and> 2 \<le> length (cbBeforeImages body))"

definition calculateETA :: "service list \<Rightarrow> instant \<Rightarrow> instant" where
  "calculateETA svcs now =
     (if svcs = [] then now + 60 * 60000
      else now + foldl (\<lambda>sum s. sum + svc_maxTime s) 0 svcs * 60000)"

text \<open>
  \<^verbatim>\<open>Service.find({ _id: { $in: serviceIds }, businessId, isActive: true })\<close>, once
  the ids are cast: the documents of the collection that match, each once, in the
  collection's order.
\<close>

definition findActiveServices :: "service list \<Rightarrow> oid \<Rightarrow> oid list \<Rightarrow> service list" where
  "findActiveServices docs bid ids =
     filter (\<lambda>s. svc_id s \<in> set ids \<and> svc_businessId s = bid \<and> svc_isActive s) docs"

definition resolveAssignee :: "db \<Rightarrow> request_ctx \<Rightarrow> oid option \<Rightarrow> oid option" where
  "resolveAssignee d ctx assignedToBody =
     (let a = (if reqUserRole ctx = ''EMPLOYEE'' \<and> assignedToBody = None
               then Some (reqUserId ctx) else assignedToBody)
      in case a of
           None \<Rightarrow> None
         | Some u \<Rightarrow>
             (if find (\<lambda>e. user_id e = u \<and> user_businessId e = reqBusinessId ctx
                            \<and> user_role e = ''EMPLOYEE'') (users d) = None
              then None else Some u))"

text \<open>
  What one pass of the creation loop reads from outside: the clock of its token
  generation, the \<^verbatim>\<open>_id\<close> the driver gives the document, the \<^verbatim>\<open>new Date()\<close> of the
  first history entry, and the answer of the storage layer to the insert when it fails
  for a reason the model's database does not show (a writer that took the token after
  the existence check, a lost connection).
\<close>

record attempt_env =
  tokenClock :: clock
  newId :: oid
  createdAt :: instant
  insertFault :: "js_error option"

text \<open>
  The document \<^verbatim>\<open>Job.create\<close> builds: the fields the route passes, and the schema
  defaults for the others (\<^verbatim>\<open>status\<close> is RECEIVED). \<open>cid\<close> and \<open>vid\<close> are
  \<^verbatim>\<open>customerId\<close> and \<^verbatim>\<open>carId\<close> of the body as ObjectIds; the lookups before
  the loop have cast them.
\<close>

definition newJob ::
  "request_ctx \<Rightarrow> create_body \<Rightarrow> oid \<Rightarrow> oid \<Rightarrow> service list \<Rightarrow> int \<Rightarrow> instant \<Rightarrow> string
   \<Rightarrow> oid option \<Rightarrow> attempt_env \<Rightarrow> job" where
  "newJob ctx body cid vid svcs priceSum eta token assignee e =
     \<lparr>job_id = newId e,
      businessId = reqBusinessId ctx,
      customerId = cid,
      carId = vid,
      tokenNumber = token,
      status = ''RECEIVED'',
      totalPrice = priceSum,
      estimatedDelivery = eta,
      actualDelivery = None,
      beforeImages = cbBeforeImages body,
      afterImages = [],
      jobNotes = cbNotes body,
      assignedTo = assignee,
      services = map (\<lambda>s. \<lparr>serviceId = svc_id s, price = svc_price s\<rparr>) svcs,
      statusHistory = [\<lparr>hStatus = ''RECEIVED'', hNotes = None, changedAt = createdAt e\<rparr>]\<rparr>"

text \<open>
  The insert: the unique index on \<^verbatim>\<open>(businessId, tokenNumber)\<close> refuses a token the
  business already has with the duplicate-key error, code 11000.
\<close>

definition duplicateKey :: js_error where
  "duplicateKey = JsError (Some 11000) ''E11000 duplicate key error''"

definition Job_create :: "job list \<Rightarrow> job \<Rightarrow> js_error option \<Rightarrow> js_error + job list" where
  "Job_create js doc fault =
     (case fault of
        Some err \<Rightarrow> Inl err
      | None \<Rightarrow>
          (if findJobByToken js (businessId doc) (tokenNumber doc) \<noteq> None then Inl duplicateKey
           else Inr (js @ [doc])))"

definition maxCreateAttempts :: nat where
  "maxCreateAttempts = 5"

text \<open>
  The retry loop. \<open>lrWaits\<close> are the delays handed to \<^verbatim>\<open>setTimeout\<close>, in order;
  \<open>lrAttempts\<close> is the loop's counter when it is left.
\<close>

record loop_result =
  lrOutcome :: "js_error + job"
  lrDb :: db
  lrRand :: rand
  lrWaits :: "real list"
  lrAttempts :: nat

function createLoop ::
  "db \<Rightarrow> request_ctx \<Rightarrow> create_body \<Rightarrow> oid \<Rightarrow> oid \<Rightarrow> service list \<Rightarrow> int \<Rightarrow> instant
   \<Rightarrow> (nat \<Rightarrow> attempt_env) \<Rightarrow> rand \<Rightarrow> real list \<Rightarrow> nat \<Rightarrow> loop_result" where
  "createLoop d ctx body cid vid svcs priceSum eta env r waits attempts =
     (if attempts < maxCreateAttempts then
        (let e = env attempts;
             (token, r1) = generateTokenNumber (jobs d) (reqBusinessId ctx) (tokenClock e) r;
             assignee = resolveAssignee d ctx (cbAssignedTo body);
             doc = newJob ctx body cid vid svcs priceSum eta token assignee e
         in case Job_create (jobs d) doc (insertFault e) of
              Inr js' \<Rightarrow>
                \<lparr>lrOutcome = Inr doc, lrDb = d\<lparr>jobs := js'\<rparr>, lrRand = r1,
                 lrWaits = waits, lrAttempts = attempts\<rparr>
            | Inl createError \<Rightarrow>
                (if errorCode createError = Some 11000 \<and> attempts < maxCreateAttempts - 1
                 then createLoop d ctx body cid vid svcs priceSum eta env (advance r1)
                        (waits @ [r1 0 * 100]) (attempts + 1)
                 else \<lparr>lrOutcome = Inl createError, lrDb = d, lrRand = r1,
                       lrWaits = waits, lrAttempts = attempts\<rparr>))
      else \<lparr>lrOutcome = Inl (JsError None ''Failed to create job after multiple attempts''),
            lrDb = d, lrRand = r, lrWaits = waits, lrAttempts = attempts\<rparr>)"
  by pat_completeness auto
termination
  by (relation "measure (\<lambda>(d, ctx, body, cid, vid, svcs, priceSum, eta, env, r, waits, attempts).
                   maxCreateAttempts - attempts)") auto

declare createLoop.simps [simp del]

text \<open>
  \<^verbatim>\<open>Customer.findOne({ _id: customerId, businessId })\<close> and
  \<^verbatim>\<open>Car.findOne({ _id: carId, businessId, customerId })\<close>, once the ids are cast.
\<close>

definition findCustomer :: "db \<Rightarrow> request_ctx \<Rightarrow> oid \<Rightarrow> customer option" where
  "findCustomer d ctx cid =
     find (\<lambda>c. cust_id c = cid \<and> cust_businessId c = reqBusinessId ctx) (customers d)"

definition findCar :: "db \<Rightarrow> request_ctx \<Rightarrow> oid \<Rightarrow> oid \<Rightarrow> car option" where
  "findCar d ctx vid cid =
     find (\<lambda>c. car_id c = vid \<and> car_businessId c = reqBusinessId ctx
                \<and> car_customerId c = cid) (cars d)"

record create_result =
  crResponse :: response
  crDb :: db
  crRand :: rand
  crWaits :: "real list"

text \<open>
  The route \<^verbatim>\<open>POST /jobs\<close>. Its body is one \<^verbatim>\<open>try\<close>: whatever a query throws,
  the \<^verbatim>\<open>CastError\<close> of an id that does not cast included, the \<^verbatim>\<open>catch\<close> answers
  with status 500 and the message \<open>Server error\<close>. Both lookups of customer and car
  run before their results are tested.
\<close>

definition rejected :: "nat \<Rightarrow> payload \<Rightarrow> db \<Rightarrow> rand \<Rightarrow> create_result" where
  "rejected c b d r = \<lparr>crResponse = Resp c b, crDb = d, crRand = r, crWaits = []\<rparr>"

definition createJob ::
  "db \<Rightarrow> request_ctx \<Rightarrow> create_body \<Rightarrow> instant \<Rightarrow> (nat \<Rightarrow> attempt_env) \<Rightarrow> rand
   \<Rightarrow> create_result" where
  "createJob d ctx body now env r =
     (if \<not> createValidators body then rejected 400 Errors d r
      else
        (let capacityCheck = canAcceptNewJob d (reqBusinessId ctx) in
         if \<not> canAccept capacityCheck
         then rejected 400 (Message (case reason capacityCheck of Some m \<Rightarrow> m | None \<Rightarrow> [])) d r
         else
           (case castObjectId (cbCustomerId body) of
              None \<Rightarrow> rejected 500 (Message ''Server error'') d r
            | Some cid \<Rightarrow>
           (case castObjectId (cbCarId body) of
              None \<Rightarrow> rejected 500 (Message ''Server error'') d r
            | Some vid \<Rightarrow>
           (let cust = findCustomer d ctx cid;
                vehicle = findCar d ctx vid cid
            in if cust = None \<or> vehicle = None
               then rejected 404 (Message ''Customer or car not found'') d r
               else
           (case castIds (cbServiceIds body) of
              None \<Rightarrow> rejected 500 (Message ''Server error'') d r
            | Some ids \<Rightarrow>
                 (let svcs = findActiveServices (serviceDocs d) (reqBusinessId ctx) ids
                  in if length svcs \<noteq> length (cbServiceIds body)
                     then rejected 400 (Message ''One or more services not found'') d r
                     else
                       (let priceSum = foldl (\<lambda>sum s. sum + svc_price s) 0 svcs;
                            eta = (case cbEstimatedDelivery body of
                                     Some t \<Rightarrow> t
                                   | None \<Rightarrow> calculateETA svcs now);
                            res = createLoop d ctx body cid vid svcs priceSum eta env r [] 0
                        in case lrOutcome res of
                             Inr created \<Rightarrow>
                               \<lparr>crResponse = Resp 201 (JobBody created), crDb = lrDb res,
                                crRand = lrRand res, crWaits = lrWaits res\<rparr>
                           | Inl err \<Rightarrow>
                               \<lparr>crResponse = Resp 500 (Message ''Server error''),
                                crDb = lrDb res, crRand = lrRand res,
                                crWaits = lrWaits res\<rparr>))))))))"

subsection \<open>Updating a job's status\<close>

text \<open>A body field as the validators see it: absent, a string, an array, or anything else.\<close>

datatype json = JUndefined | JString string | JArray "string list" | JOther

record status_body =
  sbStatus :: string
  sbNotes :: json
  sbAfterImages :: json

fun isStringOrAbsent :: "json \<Rightarrow> bool" where
  "isStringOrAbsent JUndefined = True"
| "isStringOrAbsent (JString s) = True"
| "isStringOrAbsent j = False"

fun isArrayOrAbsent :: "json \<Rightarrow> bool" where
  "isArrayOrAbsent JUndefined = True"
| "isArrayOrAbsent (JArray xs) = True"
| "isArrayOrAbsent j = False"

definition statusValidators :: "status_body \<Rightarrow> bool" where
  "statusValidators body =
     (sbStatus body \<in> set statusValidatorList
      \<and> isStringOrAbsent (sbNotes body) \<and> isArrayOrAbsent (sbAfterImages body))"

text \<open>\<^verbatim>\<open>!Array.isArray(afterImages) || afterImages.length < 2\<close>\<close>

fun tooFewImages :: "json \<Rightarrow> bool" where
  "tooFewImages (JArray xs) = (length xs < 2)"
| "tooFewImages j = True"

definition findJobForUpdate :: "db \<Rightarrow> request_ctx \<Rightarrow> oid \<Rightarrow> job option" where
  "findJobForUpdate d ctx jid =
     find (\<lambda>j. job_id j = jid \<and> businessId j = reqBusinessId ctx
                \<and> (if reqUserRole ctx = ''EMPLOYEE'' then assignedTo j = Some (reqUserId ctx)
                    else True)) (jobs d)"

fun notesOf :: "json \<Rightarrow> string option" where
  "notesOf (JString s) = Some s"
| "notesOf j = None"

text \<open>The assignments of the handler between the transition check and \<^verbatim>\<open>job.save()\<close>.\<close>

definition applyStatus :: "job \<Rightarrow> status_body \<Rightarrow> instant \<Rightarrow> job" where
  "applyStatus j body now =
     (let j1 = j\<lparr>status := sbStatus body\<rparr>;
          j2 = (case sbAfterImages body of JArray xs \<Rightarrow> j1\<lparr>afterImages := xs\<rparr> | _ \<Rightarrow> j1);
          j3 = (if sbStatus body = ''DELIVERED'' then j2\<lparr>actualDelivery := Some now\<rparr> else j2)
      in j3\<lparr>statusHistory := statusHistory j3
              @ [\<lparr>hStatus = sbStatus body, hNotes = notesOf (sbNotes body), changedAt = now\<rparr>]\<rparr>)"

text \<open>\<^verbatim>\<open>job.save()\<close>: the document with this \<^verbatim>\<open>_id\<close> is replaced.\<close>

definition saveJob :: "db \<Rightarrow> job \<Rightarrow> db" where
  "saveJob d j = d\<lparr>jobs := map (\<lambda>k. if job_id k = job_id j then j else k) (jobs d)\<rparr>"

definition updateJobStatus ::
  "db \<Rightarrow> request_ctx \<Rightarrow> oid \<Rightarrow> status_body \<Rightarrow> instant \<Rightarrow> response \<times> db" where
  "updateJobStatus d ctx jid body now =
     (if \<not> statusValidators body then (Resp 400 Errors, d)
      else if sbStatus body = ''DELIVERED'' \<and> tooFewImages (sbAfterImages body)
      then (Resp 400 (Message
              ''At least 2 after images are required when marking job as Delivered''), d)
      else
        (case findJobForUpdate d ctx jid of
           None \<Rightarrow> (Resp 404 (Message ''Job not found''), d)
         | Some j \<Rightarrow>
             (if \<not> isValidStatusTransition (status j) (sbStatus body)
              then (Resp 400 (Message ''Invalid status transition''), d)
              else (let j' = applyStatus j body now
                    in (Resp 200 (JobBody j'), saveJob d j')))))"

subsection \<open>Notions of the specification\<close>



text \<open>
  Reading a decimal numeral: the value of a string of digits, and what it is for a string
  to be the numeral of a number (digits only, no leading zero, a minus sign before the
  numeral of a negative number).
\<close>

definition digitValue :: "char \<Rightarrow> nat" where
  "digitValue c = of_char c - 48"

definition readDecimal :: "string \<Rightarrow> nat" where
  "readDecimal s = foldl (\<lambda>a c. 10 * a + digitValue c) 0 s"

definition isNumeral :: "string \<Rightarrow> nat \<Rightarrow> bool" where
  "isNumeral s n =
     (s \<noteq> [] \<and> list_all (\<lambda>c. c \<in> set ''0123456789'') s
      \<and> (if hd s = CHR ''0'' then s = ''0'' else True)
      \<and> readDecimal s = n)"

definition isIntNumeral :: "string \<Rightarrow> int \<Rightarrow> bool" where
  "isIntNumeral s i =
     (if i < 0 then s \<noteq> [] \<and> hd s = CHR ''-'' \<and> isNumeral (tl s) (nat (- i))
      else isNumeral s (nat i))"

text \<open>
  The passes of the creation loop, for stating what it does. While every pass so far has
  met a duplicate key, pass \<open>k\<close> starts from the random source \<open>randBefore k\<close> (each
  earlier pass drew for its token and once for its backoff), generates \<open>passToken k\<close>,
  submits \<open>passDoc k\<close> with the outcome \<open>passInsert k\<close>, and a retry after it waits
  \<open>passBackoff k\<close> milliseconds.
\<close>

fun randBefore :: "db \<Rightarrow> request_ctx \<Rightarrow> (nat \<Rightarrow> attempt_env) \<Rightarrow> rand \<Rightarrow> nat \<Rightarrow> rand" where
  "randBefore d ctx env r 0 = r"
| "randBefore d ctx env r (Suc k) =
     advance (snd (generateTokenNumber (jobs d) (reqBusinessId ctx) (tokenClock (env k))
                     (randBefore d ctx env r k)))"

definition passToken :: "db \<Rightarrow> request_ctx \<Rightarrow> (nat \<Rightarrow> attempt_env) \<Rightarrow> rand \<Rightarrow> nat \<Rightarrow> string" where
  "passToken d ctx env r k =
     fst (generateTokenNumber (jobs d) (reqBusinessId ctx) (tokenClock (env k))
            (randBefore d ctx env r k))"

definition passBackoff :: "db \<Rightarrow> request_ctx \<Rightarrow> (nat \<Rightarrow> attempt_env) \<Rightarrow> rand \<Rightarrow> nat \<Rightarrow> real" where
  "passBackoff d ctx env r k =
     snd (generateTokenNumber (jobs d) (reqBusinessId ctx) (tokenClock (env k))
            (randBefore d ctx env r k)) 0 * 100"

definition passDoc ::
  "db \<Rightarrow> request_ctx \<Rightarrow> create_body \<Rightarrow> oid \<Rightarrow> oid \<Rightarrow> service list \<Rightarrow> int \<Rightarrow> instant
   \<Rightarrow> (nat \<Rightarrow> attempt_env) \<Rightarrow> rand \<Rightarrow> nat \<Rightarrow> job" where
  "passDoc d ctx body cid vid svcs p eta env r k =
     newJob ctx body cid vid svcs p eta (passToken d ctx env r k)
       (resolveAssignee d ctx (cbAssignedTo body)) (env k)"

definition passInsert ::
  "db \<Rightarrow> request_ctx \<Rightarrow> create_body \<Rightarrow> oid \<Rightarrow> oid \<Rightarrow> service list \<Rightarrow> int \<Rightarrow> instant
   \<Rightarrow> (nat \<Rightarrow> attempt_env) \<Rightarrow> rand \<Rightarrow> nat \<Rightarrow> js_error + job list" where
  "passInsert d ctx body cid vid svcs p eta env r k =
     Job_create (jobs d) (passDoc d ctx body cid vid svcs p eta env r k) (insertFault (env k))"

fun isDuplicate :: "js_error + 'a \<Rightarrow> bool" where
  "isDuplicate (Inl e) = (errorCode e = Some 11000)"
| "isDuplicate (Inr x) = False"


subsection \<open>The history invariant\<close>

definition historyOk :: "job \<Rightarrow> bool" where
  "historyOk j = (statusHistory j \<noteq> [] \<and> hStatus (last (statusHistory j)) = status j)"

text \<open>
  The databases the routes can produce from one without jobs. The only other writer of
  the collection is the cascade \<^verbatim>\<open>Job.deleteMany({ businessId })\<close> of a removed business.
\<close>

inductive reachable :: "db \<Rightarrow> bool" where
  start: "jobs d = [] \<Longrightarrow> reachable d"
| created: "reachable d \<Longrightarrow> reachable (crDb (createJob d ctx body now env r))"
| updated: "reachable d \<Longrightarrow> reachable (snd (updateJobStatus d ctx jid body now))"
| cascade: "reachable d \<Longrightarrow> reachable (d\<lparr>jobs := filter (\<lambda>j. businessId j \<noteq> bid) (jobs d)\<rparr>)"

section \<open>Example data\<close>

text \<open>
  A database with a single-slot business (7) that has one active job, and a multi-slot
  business (8) with three services, one of them inactive, and no job yet.
\<close>

definition exJob :: job where
  "exJob = \<lparr>job_id = 1, businessId = 7, customerId = 3, carId = 4,
     tokenNumber = ''20260208-AAAAAA'', status = ''RECEIVED'', totalPrice = 500,
     estimatedDelivery = 0, actualDelivery = None,
     beforeImages = [''b1'', ''b2''], afterImages = [], jobNotes = None, assignedTo = None,
     services = [\<lparr>serviceId = 5, price = 500\<rparr>],
     statusHistory = [\<lparr>hStatus = ''RECEIVED'', hNotes = None, changedAt = 0\<rparr>]\<rparr>"

definition exSingle :: business where
  "exSingle = \<lparr>biz_id = 7, carHandlingCapacity = ''SINGLE'', maxConcurrentJobs = 1\<rparr>"

definition exMultiple :: business where
  "exMultiple = \<lparr>biz_id = 8, carHandlingCapacity = ''MULTIPLE'', maxConcurrentJobs = 3\<rparr>"

definition exServices :: "service list" where
  "exServices =
     [\<lparr>svc_id = 5, svc_businessId = 7, svc_price = 500, svc_maxTime = 30, svc_isActive = True\<rparr>,
      \<lparr>svc_id = 15, svc_businessId = 8, svc_price = 300, svc_maxTime = 20, svc_isActive = True\<rparr>,
      \<lparr>svc_id = 16, svc_businessId = 8, svc_price = 450, svc_maxTime = 40, svc_isActive = False\<rparr>,
      \<lparr>svc_id = 17, svc_businessId = 8, svc_price = 200, svc_maxTime = 10, svc_isActive = True\<rparr>]"

definition exDb0 :: db where
  "exDb0 = \<lparr>businesses = [exSingle, exMultiple],
            customers = [\<lparr>cust_id = 3, cust_businessId = 7\<rparr>,
                         \<lparr>cust_id = 13, cust_businessId = 8\<rparr>],
            cars = [\<lparr>car_id = 4, car_businessId = 7, car_customerId = 3\<rparr>,
                    \<lparr>car_id = 14, car_businessId = 8, car_customerId = 13\<rparr>],
            serviceDocs = exServices,
            users = [],
            jobs = []\<rparr>"

definition exDb :: db where
  "exDb = exDb0\<lparr>jobs := [exJob]\<rparr>"

definition exAdmin :: "oid \<Rightarrow> request_ctx" where
  "exAdmin bid = \<lparr>reqBusinessId = bid, reqUserId = 100, reqUserRole = ''CAR_WASH_ADMIN''\<rparr>"

definition exBody :: "oid list \<Rightarrow> create_body" where
  "exBody ids = \<lparr>cbCustomerId = IdOk 13, cbCarId = IdOk 14, cbServiceIds = map IdOk ids,
                  cbBeforeImages = [''b1'', ''b2''], cbNotes = None,
                  cbEstimatedDelivery = None, cbAssignedTo = None\<rparr>"

definition exClock :: clock where
  "exClock = \<lparr>today = \<lparr>dYear = 2026, dMonth = 2, dDay = 8, dHours = 9, dMinutes = 30,
                         dSeconds = 15, dMillis = 250\<rparr>,
              nowMs = 1788791071158\<rparr>"

text \<open>Passes of the creation loop: the first \<open>n\<close> inserts meet a duplicate key.\<close>

definition exEnv :: "nat \<Rightarrow> nat \<Rightarrow> attempt_env" where
  "exEnv n k = \<lparr>tokenClock = exClock, newId = 50 + k, createdAt = 1000,
                insertFault = (if k < n then Some duplicateKey else None)\<rparr>"

text \<open>Passes whose first insert fails with an error that has no code.\<close>

definition exEnvLost :: "nat \<Rightarrow> attempt_env" where
  "exEnvLost k = \<lparr>tokenClock = exClock, newId = 50 + k, createdAt = 1000,
                  insertFault = Some (JsError None ''connection lost'')\<rparr>"

definition exRand :: rand where
  "exRand = (\<lambda>n. 0)"


text \<open>The job a first pass creates in \<open>exDb0\<close> for the services 15 and 17 of business 8.\<close>

definition exCreated :: job where
  "exCreated = newJob (exAdmin 8) (exBody [15, 17]) 13 14
                 (findActiveServices exServices 8 [15, 17])
                 500 1800000 ''20260208-AAAAAA'' None (exEnv 0 0)"

definition exCompleted :: status_body where
  "exCompleted = \<lparr>sbStatus = ''COMPLETED'', sbNotes = JString ''dried'', sbAfterImages = JUndefined\<rparr>"

text \<open>
  A database where business 7 has only a delivered job, and business 8 three active
  jobs beside a completed and a cancelled one.
\<close>

definition exJobWith :: "oid \<Rightarrow> oid \<Rightarrow> string \<Rightarrow> string \<Rightarrow> job" where
  "exJobWith i bid token st = exJob\<lparr>job_id := i, businessId := bid, tokenNumber := token, status := st\<rparr>"

definition exBusy :: db where
  "exBusy = exDb0\<lparr>jobs :=
     [exJobWith 1 7 ''20260208-AAAAAA'' ''DELIVERED'',
      exJobWith 2 8 ''20260208-BBBBBB'' ''RECEIVED'',
      exJobWith 3 8 ''20260208-CCCCCC'' ''COMPLETED'',
      exJobWith 4 8 ''20260208-DDDDDD'' ''RECEIVED'',
      exJobWith 5 8 ''20260208-EEEEEE'' ''CANCELLED'',
      exJobWith 6 8 ''20260208-FFFFFF'' ''RECEIVED'']\<rparr>"

text \<open>
  A database where business 8 has two active jobs beside a completed, a cancelled and a
  delivered one.
\<close>

definition exDone :: db where
  "exDone = exDb0\<lparr>jobs :=
     [exJobWith 2 8 ''20260208-BBBBBB'' ''RECEIVED'',
      exJobWith 3 8 ''20260208-CCCCCC'' ''COMPLETED'',
      exJobWith 4 8 ''20260208-DDDDDD'' ''RECEIVED'',
      exJobWith 5 8 ''20260208-EEEEEE'' ''CANCELLED'',
      exJobWith 6 8 ''20260208-FFFFFF'' ''DELIVERED'']\<rparr>"






definition exDelivered :: "json \<Rightarrow> status_body" where
  "exDelivered imgs = \<lparr>sbStatus = ''DELIVERED'', sbNotes = JUndefined, sbAfterImages = imgs\<rparr>"

section \<open>Theorems on the transition rule\<close>

lemma indexOf_statusOrder:
  "indexOf statusOrder s =
     (if s = ''RECEIVED'' then 0 else if s = ''IN_PROGRESS'' then 1
      else if s = ''WASHING'' then 2 else if s = ''DRYING'' then 3
      else if s = ''COMPLETED'' then 4 else if s = ''DELIVERED'' then 5 else - 1)"
  by (simp add: indexOf_def statusOrder_def)

text \<open>
  C1. Over the flow RECEIVED, WORK_STARTED, COMPLETED, DELIVERED a move other than a
  cancellation is to be legal exactly when it does not go backwards, so that RECEIVED to
  WORK_STARTED and WORK_STARTED to WORK_STARTED are legal. The source still lists the
  retired flow:
  WORK_STARTED is not in \<open>statusOrder\<close>, and every move into or out of it (other than
  cancelling) is refused, although the route's validator admits the status; the retired
  status IN_PROGRESS is still accepted.
\<close>

theorem C1_work_started_refused:
  "isValidStatusTransition ''RECEIVED'' ''WORK_STARTED'' = False
   \<and> isValidStatusTransition ''WORK_STARTED'' ''WORK_STARTED'' = False
   \<and> isValidStatusTransition ''WORK_STARTED'' ''COMPLETED'' = False
   \<and> ''WORK_STARTED'' \<in> set statusValidatorList
   \<and> isValidStatusTransition ''RECEIVED'' ''IN_PROGRESS'' = True"
  by (simp add: isValidStatusTransition_def indexOf_statusOrder statusValidatorList_def)

text \<open>
  C5 as stated: no move out of DELIVERED is legal, the no-op DELIVERED to DELIVERED
  included. The source allows staying in the same status, so that no-op is legal.
\<close>

theorem C5_delivered_noop_counterexample:
  "isValidStatusTransition ''DELIVERED'' ''DELIVERED'' = True"
  by (simp add: isValidStatusTransition_def indexOf_statusOrder)

text \<open>
  C5 as amended: out of DELIVERED the only legal request is DELIVERED itself; every
  other requested status, CANCELLED and unknown names included, is refused.
\<close>

theorem C5_delivered_only_noop:
  "isValidStatusTransition ''DELIVERED'' t = (t = ''DELIVERED'')"
  by (simp add: isValidStatusTransition_def indexOf_statusOrder)

section \<open>Theorems on the capacity gate\<close>

lemma findBusinessById_unique:
  assumes "distinct (map biz_id bs)" and "b \<in> set bs"
  shows "findBusinessById bs (biz_id b) = Some b"
  using assms unfolding findBusinessById_def
proof (induction bs)
  case Nil
  then show ?case by simp
next
  case (Cons a bs)
  then show ?case by (cases "a = b") force+
qed

lemma findBusinessById_absent:
  assumes "bid \<notin> biz_id ` set bs"
  shows "findBusinessById bs bid = None"
  using assms by (auto simp add: findBusinessById_def find_None_iff)

lemma digitValue_digitChar: "digitValue (digitChar n) = n mod 10"
proof -
  have "n mod 10 = 0 \<or> n mod 10 = 1 \<or> n mod 10 = 2 \<or> n mod 10 = 3 \<or> n mod 10 = 4
      \<or> n mod 10 = 5 \<or> n mod 10 = 6 \<or> n mod 10 = 7 \<or> n mod 10 = 8 \<or> n mod 10 = 9"
    by presburger
  then show ?thesis by (elim disjE) (simp_all add: digitChar_def digitValue_def)
qed

lemma digitChar_decimal: "digitChar n \<in> set ''0123456789''"
proof -
  have "n mod 10 < length ''0123456789''" by simp
  then show ?thesis unfolding digitChar_def by (rule nth_mem)
qed

lemma readDecimal_snoc: "readDecimal (s @ [c]) = 10 * readDecimal s + digitValue c"
  by (simp add: readDecimal_def)

lemma showNat_numeral: "isNumeral (showNat n) n"
proof (induction n rule: showNat.induct)
  case (1 n)
  show ?case
  proof (cases "n < 10")
    case True
    then have eq: "showNat n = [digitChar n]" by (subst showNat.simps) simp
    show ?thesis
      unfolding eq using True digitChar_decimal [of n] digitValue_digitChar [of n]
      by (simp add: isNumeral_def readDecimal_def)
  next
    case False
    let ?s = "showNat (n div 10)"
    from "1.IH" [OF False] have ne: "?s \<noteq> []"
      and dig: "list_all (\<lambda>c. c \<in> set ''0123456789'') ?s"
      and lead: "hd ?s = CHR ''0'' \<Longrightarrow> ?s = ''0''"
      and val: "readDecimal ?s = n div 10"
      by (simp_all add: isNumeral_def split: if_splits)
    have eq: "showNat n = ?s @ [digitChar n]"
      using False by (subst showNat.simps) simp
    have "hd (showNat n) \<noteq> CHR ''0''"
    proof
      assume "hd (showNat n) = CHR ''0''"
      with eq ne have "hd ?s = CHR ''0''" by simp
      from lead [OF this] val have "n div 10 = 0" by (simp add: readDecimal_def digitValue_def)
      with False show False by simp
    qed
    moreover have "readDecimal (showNat n) = n"
      unfolding eq readDecimal_snoc val digitValue_digitChar by simp
    moreover have "list_all (\<lambda>c. c \<in> set ''0123456789'') (showNat n)"
      unfolding eq using dig digitChar_decimal [of n] by simp
    ultimately show ?thesis using eq by (simp add: isNumeral_def)
  qed
qed

lemma showInt_numeral: "isIntNumeral (showInt i) i"
  using showNat_numeral [of "nat i"] showNat_numeral [of "nat (- i)"]
  by (simp add: isIntNumeral_def showInt_def)

text \<open>
  C3. In a database where business ids are unique, for a business that exists: the gate
  accepts exactly when the number of the business's jobs whose status is none of
  COMPLETED, DELIVERED and CANCELLED is below the limit, which is 1 under SINGLE and
  \<open>maxConcurrentJobs\<close> under MULTIPLE. A refusal under SINGLE carries the single-slot
  reason; a refusal under MULTIPLE carries the capacity reason, in which the numeral of
  the limit stands; the two texts differ whatever the limit.
\<close>

theorem C3_capacity_gate:
  assumes "distinct (map biz_id (businesses d))" and "b \<in> set (businesses d)"
  shows "(carHandlingCapacity b = ''SINGLE'' \<longrightarrow>
            canAccept (canAcceptNewJob d (biz_id b))
              = (length (filter (\<lambda>j. businessId j = biz_id b \<and> status j \<noteq> ''COMPLETED''
                                     \<and> status j \<noteq> ''DELIVERED'' \<and> status j \<noteq> ''CANCELLED'')
                           (jobs d)) < 1))
       \<and> (carHandlingCapacity b = ''MULTIPLE'' \<longrightarrow>
            canAccept (canAcceptNewJob d (biz_id b))
              = (int (length (filter (\<lambda>j. businessId j = biz_id b \<and> status j \<noteq> ''COMPLETED''
                                     \<and> status j \<noteq> ''DELIVERED'' \<and> status j \<noteq> ''CANCELLED'')
                                (jobs d))) < maxConcurrentJobs b))
       \<and> (carHandlingCapacity b = ''SINGLE'' \<and> \<not> canAccept (canAcceptNewJob d (biz_id b)) \<longrightarrow>
            reason (canAcceptNewJob d (biz_id b)) = Some ''Another job is already in progress'')
       \<and> (carHandlingCapacity b = ''MULTIPLE'' \<and> \<not> canAccept (canAcceptNewJob d (biz_id b)) \<longrightarrow>
            (\<exists>s. reason (canAcceptNewJob d (biz_id b))
                    = Some (''Maximum capacity of '' @ s @ '' jobs reached'')
                \<and> isIntNumeral s (maxConcurrentJobs b)))
       \<and> (\<forall>s. ''Another job is already in progress''
                 \<noteq> ''Maximum capacity of '' @ s @ '' jobs reached'')"
proof -
  have f: "findBusinessById (businesses d) (biz_id b) = Some b"
    using assms by (rule findBusinessById_unique)
  have c: "activeJobsCount (jobs d) (biz_id b)
      = length (filter (\<lambda>j. businessId j = biz_id b \<and> status j \<noteq> ''COMPLETED''
                             \<and> status j \<noteq> ''DELIVERED'' \<and> status j \<noteq> ''CANCELLED'') (jobs d))"
    by (simp add: activeJobsCount_def)
  show ?thesis
    unfolding c [symmetric]
    using f showInt_numeral [of "maxConcurrentJobs b"]
    by (auto simp add: canAcceptNewJob_def Let_def)
qed

lemma ex_businesses:
  "distinct (map biz_id (businesses exBusy))" "exSingle \<in> set (businesses exBusy)"
  "exMultiple \<in> set (businesses exBusy)"
  "distinct (map biz_id (businesses exDb))" "exSingle \<in> set (businesses exDb)"
  "distinct (map biz_id (businesses exDone))" "exMultiple \<in> set (businesses exDone)"
  by (simp_all add: exBusy_def exDone_def exDb_def exDb0_def exSingle_def exMultiple_def)

lemma ex_busy_counts:
  "length (filter (\<lambda>j. businessId j = 7 \<and> status j \<noteq> ''COMPLETED''
                        \<and> status j \<noteq> ''DELIVERED'' \<and> status j \<noteq> ''CANCELLED'')
             (jobs exBusy)) = 0"
  "length (filter (\<lambda>j. businessId j = 8 \<and> status j \<noteq> ''COMPLETED''
                        \<and> status j \<noteq> ''DELIVERED'' \<and> status j \<noteq> ''CANCELLED'')
             (jobs exBusy)) = 3"
  "length (filter (\<lambda>j. businessId j = 7 \<and> status j \<noteq> ''COMPLETED''
                        \<and> status j \<noteq> ''DELIVERED'' \<and> status j \<noteq> ''CANCELLED'')
             (jobs exDb)) = 1"
  "length (filter (\<lambda>j. businessId j = 8 \<and> status j \<noteq> ''COMPLETED''
                        \<and> status j \<noteq> ''DELIVERED'' \<and> status j \<noteq> ''CANCELLED'')
             (jobs exDone)) = 2"
  by (simp_all add: exBusy_def exDone_def exDb_def exJobWith_def exJob_def)

lemma ex_numeral3: "isIntNumeral s 3 \<Longrightarrow> s = ''3''"
proof -
  assume "isIntNumeral s 3"
  then have n: "s \<noteq> []" "list_all (\<lambda>c. c \<in> set ''0123456789'') s"
    "hd s \<noteq> CHR ''0''" "readDecimal s = 3"
    by (auto simp add: isIntNumeral_def isNumeral_def readDecimal_def digitValue_def
        split: if_splits)
  then obtain c t where s: "s = c # t" by (cases s) auto
  have grow: "\<And>a u. list_all (\<lambda>c. c \<in> set ''0123456789'') u \<Longrightarrow>
      a \<le> foldl (\<lambda>a c. 10 * a + digitValue c) a u"
  proof -
    fix a u show "list_all (\<lambda>c. c \<in> set ''0123456789'') u \<Longrightarrow>
      a \<le> foldl (\<lambda>a c. 10 * a + digitValue c) a u"
    proof (induction u arbitrary: a)
      case Nil
      then show ?case by simp
    next
      case (Cons x u)
      from Cons.prems have "list_all (\<lambda>c. c \<in> set ''0123456789'') u" by simp
      from Cons.IH [OF this, of "10 * a + digitValue x"] show ?case by simp
    qed
  qed
  from n(2,3) s have c: "c \<in> set ''123456789''" by auto
  have "t = []"
  proof (rule ccontr)
    assume "t \<noteq> []"
    then obtain x u where t: "t = x # u" by (cases t) auto
    from n(2) s t have "list_all (\<lambda>c. c \<in> set ''0123456789'') u" by simp
    from grow [OF this, of "10 * digitValue c + digitValue x"] n(4) s t
    have "10 * digitValue c + digitValue x \<le> 3" by (simp add: readDecimal_def)
    with c show False by (auto simp add: digitValue_def)
  qed
  with n(4) s c show ?thesis by (auto simp add: readDecimal_def digitValue_def)
qed

theorem C3_capacity_gate_witness:
  "distinct (map biz_id (businesses exBusy))
   \<and> exSingle \<in> set (businesses exBusy) \<and> exMultiple \<in> set (businesses exBusy)
   \<and> carHandlingCapacity exSingle = ''SINGLE'' \<and> carHandlingCapacity exMultiple = ''MULTIPLE''
   \<and> maxConcurrentJobs exMultiple = 3
   \<and> length (jobs exBusy) = 6
   \<and> canAccept (canAcceptNewJob exBusy 7) = True
   \<and> canAccept (canAcceptNewJob exBusy 8) = False
   \<and> reason (canAcceptNewJob exBusy 8) = Some ''Maximum capacity of 3 jobs reached''
   \<and> canAccept (canAcceptNewJob exDb 7) = False
   \<and> reason (canAcceptNewJob exDb 7) = Some ''Another job is already in progress''
   \<and> length (jobs exDone) = 5
   \<and> canAccept (canAcceptNewJob exDone 8) = True"
proof -
  have ids: "biz_id exSingle = 7" "biz_id exMultiple = 8"
    "carHandlingCapacity exSingle = ''SINGLE''" "carHandlingCapacity exMultiple = ''MULTIPLE''"
    "maxConcurrentJobs exMultiple = 3"
    by (simp_all add: exSingle_def exMultiple_def)
  note S = C3_capacity_gate [OF ex_businesses(1,2)]
  note M = C3_capacity_gate [OF ex_businesses(1,3)]
  note D = C3_capacity_gate [OF ex_businesses(4,5)]
  from S [THEN conjunct1] have a: "canAccept (canAcceptNewJob exBusy 7) = True"
    by (simp add: ids ex_busy_counts)
  from M [THEN conjunct2, THEN conjunct1] have b: "canAccept (canAcceptNewJob exBusy 8) = False"
    by (simp add: ids ex_busy_counts)
  from M [THEN conjunct2, THEN conjunct2, THEN conjunct2, THEN conjunct1] b
  obtain s where "reason (canAcceptNewJob exBusy 8)
        = Some (''Maximum capacity of '' @ s @ '' jobs reached'')" and "isIntNumeral s 3"
    by (auto simp add: ids)
  with ex_numeral3 have c: "reason (canAcceptNewJob exBusy 8)
        = Some ''Maximum capacity of 3 jobs reached''"
    by auto
  from D [THEN conjunct1] have e: "canAccept (canAcceptNewJob exDb 7) = False"
    by (simp add: ids ex_busy_counts)
  from D [THEN conjunct2, THEN conjunct2, THEN conjunct1] e
  have g: "reason (canAcceptNewJob exDb 7) = Some ''Another job is already in progress''"
    by (simp add: ids)
  note Q = C3_capacity_gate [OF ex_businesses(6,7)]
  from Q [THEN conjunct2, THEN conjunct1] have q: "canAccept (canAcceptNewJob exDone 8) = True"
    by (simp add: ids ex_busy_counts)
  have l: "length (jobs exBusy) = 6" "length (jobs exDone) = 5"
    by (simp_all add: exBusy_def exDone_def)
  from a b c e g q l ids ex_businesses(1,2,3) show ?thesis by simp
qed

text \<open>
  C9 as stated: for a business that does not exist the gate fails with a not-found
  error instead of an ordinary refusal. The source returns the refusal object, with
  \<open>canAccept\<close> false and a reason, as it does when the capacity is used up.
\<close>

theorem C9_absent_business_counterexample:
  "map biz_id (businesses exDb) = [7, 8]
   \<and> canAcceptNewJob exDb 9 = \<lparr>canAccept = False, reason = Some ''Business not found''\<rparr>"
  by (simp add: canAcceptNewJob_def findBusinessById_def exDb_def exDb0_def exSingle_def
      exMultiple_def)

text \<open>
  C9 as amended: for a business that does not exist the gate returns the refusal
  \<open>{canAccept: false, reason: 'Business not found'}\<close>, which differs from the two
  capacity refusals by its reason only.
\<close>

theorem C9_absent_business_refusal:
  assumes "bid \<notin> biz_id ` set (businesses d)"
  shows "canAcceptNewJob d bid = \<lparr>canAccept = False, reason = Some ''Business not found''\<rparr>
       \<and> ''Business not found'' \<noteq> ''Another job is already in progress''
       \<and> (\<forall>s. ''Business not found'' \<noteq> ''Maximum capacity of '' @ s @ '' jobs reached'')"
  using findBusinessById_absent [OF assms] by (simp add: canAcceptNewJob_def)

theorem C9_absent_business_refusal_witness:
  "9 \<notin> biz_id ` set (businesses exDb)
   \<and> canAcceptNewJob exDb 9 = \<lparr>canAccept = False, reason = Some ''Business not found''\<rparr>"
proof -
  have a: "9 \<notin> biz_id ` set (businesses exDb)"
    by (simp add: exDb_def exDb0_def exSingle_def exMultiple_def)
  from C9_absent_business_refusal [OF a] a show ?thesis by simp
qed

section \<open>Theorems on the status route\<close>

lemma applyStatus_status: "status (applyStatus j body now) = sbStatus body"
  by (simp add: applyStatus_def Let_def split: json.splits)

lemma applyStatus_job_id: "job_id (applyStatus j body now) = job_id j"
  by (simp add: applyStatus_def Let_def split: json.splits)

lemma applyStatus_history:
  "statusHistory (applyStatus j body now)
     = statusHistory j
       @ [\<lparr>hStatus = sbStatus body, hNotes = notesOf (sbNotes body), changedAt = now\<rparr>]"
  by (simp add: applyStatus_def Let_def split: json.splits)

lemma applyStatus_historyOk: "historyOk (applyStatus j body now)"
  by (simp add: historyOk_def applyStatus_status applyStatus_history)

lemma update_success:
  assumes "fst (updateJobStatus d ctx jid body now) = Resp 200 (JobBody j')"
  shows "\<exists>j. findJobForUpdate d ctx jid = Some j \<and> j' = applyStatus j body now
             \<and> isValidStatusTransition (status j) (sbStatus body)
             \<and> snd (updateJobStatus d ctx jid body now) = saveJob d j'"
  using assms by (auto simp add: updateJobStatus_def Let_def split: if_splits option.splits)

lemma update_db:
  "snd (updateJobStatus d ctx jid body now) = d
   \<or> (\<exists>j. snd (updateJobStatus d ctx jid body now) = saveJob d (applyStatus j body now))"
  by (auto simp add: updateJobStatus_def Let_def split: if_splits option.splits)

lemma findJobForUpdate_Some:
  "findJobForUpdate d ctx jid = Some j \<Longrightarrow> j \<in> set (jobs d) \<and> job_id j = jid"
  by (auto simp add: findJobForUpdate_def find_Some_iff)

lemma saveJob_member: "j \<in> set (jobs d) \<Longrightarrow> job_id j' = job_id j \<Longrightarrow> j' \<in> set (jobs (saveJob d j'))"
  by (force simp add: saveJob_def)

text \<open>
  C2. A request for DELIVERED whose \<open>afterImages\<close> is not an array, or an array of fewer
  than two entries, is answered with status 400 and leaves the database as it was, so no
  job changes its status, history, images or delivery time, whatever its status was;
  a body that passes the validators gets the message on the missing images.
\<close>

theorem C2_delivered_needs_images:
  assumes "sbStatus body = ''DELIVERED''" and "tooFewImages (sbAfterImages body)"
  shows "statusCode (fst (updateJobStatus d ctx jid body now)) = 400
       \<and> snd (updateJobStatus d ctx jid body now) = d
       \<and> (statusValidators body \<longrightarrow>
            fst (updateJobStatus d ctx jid body now)
              = Resp 400 (Message
                  ''At least 2 after images are required when marking job as Delivered''))"
  using assms by (simp add: updateJobStatus_def)

theorem C2_delivered_needs_images_witness:
  "sbStatus (exDelivered (JArray [''a1''])) = ''DELIVERED''
   \<and> tooFewImages (sbAfterImages (exDelivered (JArray [''a1''])))
   \<and> statusValidators (exDelivered (JArray [''a1'']))
   \<and> findJobForUpdate exDb (exAdmin 7) 1 = Some exJob \<and> status exJob = ''RECEIVED''
   \<and> updateJobStatus exDb (exAdmin 7) 1 (exDelivered (JArray [''a1''])) 5000
       = (Resp 400 (Message
            ''At least 2 after images are required when marking job as Delivered''), exDb)
   \<and> tooFewImages (sbAfterImages (exDelivered JUndefined))
   \<and> updateJobStatus exDb (exAdmin 7) 1 (exDelivered JUndefined) 5000
       = (Resp 400 (Message
            ''At least 2 after images are required when marking job as Delivered''), exDb)"
  using C2_delivered_needs_images [of "exDelivered (JArray [''a1''])" exDb "exAdmin 7" 1 5000]
    C2_delivered_needs_images [of "exDelivered JUndefined" exDb "exAdmin 7" 1 5000]
  by (simp add: exDelivered_def statusValidators_def statusValidatorList_def prod_eq_iff
      findJobForUpdate_def exDb_def exJob_def exAdmin_def)

section \<open>Theorems on job creation\<close>

subsection \<open>Service resolution\<close>





lemma castIds_map: "castIds (map IdOk ids) = Some ids"
  by (induction ids) simp_all


subsection \<open>The creation loop, one pass at a time\<close>

lemma newJob_historyOk: "historyOk (newJob ctx body cid vid svcs p eta token assignee e)"
  by (simp add: historyOk_def newJob_def)

lemma Job_create_Inr: "Job_create js doc fault = Inr js' \<Longrightarrow> js' = js @ [doc]"
  by (auto simp add: Job_create_def split: option.splits if_splits)

lemma createLoop_done:
  assumes "a < maxCreateAttempts"
    and "generateTokenNumber (jobs d) (reqBusinessId ctx) (tokenClock (env a)) r = (token, r1)"
    and "Job_create (jobs d)
           (newJob ctx body cid vid svcs p eta token (resolveAssignee d ctx (cbAssignedTo body)) (env a))
           (insertFault (env a)) = Inr js'"
  shows "createLoop d ctx body cid vid svcs p eta env r waits a
       = \<lparr>lrOutcome = Inr (newJob ctx body cid vid svcs p eta token
                               (resolveAssignee d ctx (cbAssignedTo body)) (env a)),
          lrDb = d\<lparr>jobs := js'\<rparr>, lrRand = r1, lrWaits = waits, lrAttempts = a\<rparr>"
  using assms by (subst createLoop.simps) simp

lemma createLoop_retry:
  assumes "a < maxCreateAttempts - 1"
    and "generateTokenNumber (jobs d) (reqBusinessId ctx) (tokenClock (env a)) r = (token, r1)"
    and "Job_create (jobs d)
           (newJob ctx body cid vid svcs p eta token (resolveAssignee d ctx (cbAssignedTo body)) (env a))
           (insertFault (env a)) = Inl err"
    and "errorCode err = Some 11000"
  shows "createLoop d ctx body cid vid svcs p eta env r waits a
       = createLoop d ctx body cid vid svcs p eta env (advance r1) (waits @ [r1 0 * 100]) (a + 1)"
  using assms by (subst createLoop.simps) simp

lemma createLoop_throw:
  assumes "a < maxCreateAttempts"
    and "generateTokenNumber (jobs d) (reqBusinessId ctx) (tokenClock (env a)) r = (token, r1)"
    and "Job_create (jobs d)
           (newJob ctx body cid vid svcs p eta token (resolveAssignee d ctx (cbAssignedTo body)) (env a))
           (insertFault (env a)) = Inl err"
    and "errorCode err \<noteq> Some 11000 \<or> a = maxCreateAttempts - 1"
  shows "createLoop d ctx body cid vid svcs p eta env r waits a
       = \<lparr>lrOutcome = Inl err, lrDb = d, lrRand = r1, lrWaits = waits, lrAttempts = a\<rparr>"
  using assms by (subst createLoop.simps) auto

lemma createLoop_outcome:
  "(\<exists>e. lrOutcome (createLoop d ctx body cid vid svcs p eta env r waits a) = Inl e
        \<and> lrDb (createLoop d ctx body cid vid svcs p eta env r waits a) = d)
   \<or> (\<exists>token assignee k.
        lrOutcome (createLoop d ctx body cid vid svcs p eta env r waits a)
            = Inr (newJob ctx body cid vid svcs p eta token assignee (env k))
        \<and> lrDb (createLoop d ctx body cid vid svcs p eta env r waits a)
            = d\<lparr>jobs := jobs d @ [newJob ctx body cid vid svcs p eta token assignee (env k)]\<rparr>)"
proof (induction d ctx body cid vid svcs p eta env r waits a rule: createLoop.induct)
  case (1 d ctx body cid vid svcs p eta env r waits a)
  show ?case
  proof (cases "a < maxCreateAttempts")
    case False
    then show ?thesis by (subst createLoop.simps, subst (2) createLoop.simps) simp
  next
    case True
    obtain token r1 where
      g: "generateTokenNumber (jobs d) (reqBusinessId ctx) (tokenClock (env a)) r = (token, r1)"
      by (cases "generateTokenNumber (jobs d) (reqBusinessId ctx) (tokenClock (env a)) r")
    let ?doc = "newJob ctx body cid vid svcs p eta token (resolveAssignee d ctx (cbAssignedTo body)) (env a)"
    show ?thesis
    proof (cases "Job_create (jobs d) ?doc (insertFault (env a))")
      case (Inr js')
      show ?thesis
        unfolding createLoop_done [where env = env and a = a, OF True g Inr]
        using Job_create_Inr [OF Inr] by auto
    next
      case (Inl err)
      show ?thesis
      proof (cases "errorCode err = Some 11000 \<and> a < maxCreateAttempts - 1")
        case retry: True
        then have c: "errorCode err = Some 11000" and l: "a < maxCreateAttempts - 1"
          by simp_all
        show ?thesis
          unfolding createLoop_retry [where env = env and a = a, OF l g Inl c]
          using "1.IH" [OF True refl refl g [symmetric] refl refl Inl retry] by simp
      next
        case False
        with True have stop: "errorCode err \<noteq> Some 11000 \<or> a = maxCreateAttempts - 1"
          by auto
        show ?thesis
          unfolding createLoop_throw [where env = env and a = a, OF True g Inl stop] by simp
      qed
    qed
  qed
qed

text \<open>
  The route either rejects before the loop, returning the database and the random
  source as they were, or it has cast the ids, passed every check and answers with the
  outcome of the loop.
\<close>

lemma rejected_fields:
  "crResponse (rejected c b d r) = Resp c b" "crDb (rejected c b d r) = d"
  "crRand (rejected c b d r) = r" "crWaits (rejected c b d r) = []"
  by (simp_all add: rejected_def)

lemma createJob_run:
  assumes "createValidators body" and "canAccept (canAcceptNewJob d (reqBusinessId ctx))"
    and "castObjectId (cbCustomerId body) = Some cid"
    and "castObjectId (cbCarId body) = Some vid"
    and "findCustomer d ctx cid \<noteq> None" and "findCar d ctx vid cid \<noteq> None"
    and "castIds (cbServiceIds body) = Some ids"
    and "svcs = findActiveServices (serviceDocs d) (reqBusinessId ctx) ids"
    and "length svcs = length (cbServiceIds body)"
    and "p = foldl (\<lambda>sum s. sum + svc_price s) 0 svcs"
    and "eta = (case cbEstimatedDelivery body of Some t \<Rightarrow> t | None \<Rightarrow> calculateETA svcs now)"
  shows "createJob d ctx body now env r
           = \<lparr>crResponse =
                (case lrOutcome (createLoop d ctx body cid vid svcs p eta env r [] 0) of
                   Inr created \<Rightarrow> Resp 201 (JobBody created)
                 | Inl err \<Rightarrow> Resp 500 (Message ''Server error'')),
              crDb = lrDb (createLoop d ctx body cid vid svcs p eta env r [] 0),
              crRand = lrRand (createLoop d ctx body cid vid svcs p eta env r [] 0),
              crWaits = lrWaits (createLoop d ctx body cid vid svcs p eta env r [] 0)\<rparr>"
proof -
  from assms(5,6) obtain cu ca where
    f: "findCustomer d ctx cid = Some cu" "findCar d ctx vid cid = Some ca"
    by auto
  show ?thesis
    unfolding createJob_def Let_def
    using assms(1,2,9) unfolding assms(8,10,11)
    by (simp add: assms(3,4,7) f split: sum.splits)
qed

lemma createJob_cases:
  "(\<exists>c b. c \<in> {400, 404, 500} \<and> createJob d ctx body now env r = rejected c b d r)
   \<or> (\<exists>cid vid ids.
         createValidators body \<and> canAccept (canAcceptNewJob d (reqBusinessId ctx))
       \<and> castObjectId (cbCustomerId body) = Some cid \<and> castObjectId (cbCarId body) = Some vid
       \<and> findCustomer d ctx cid \<noteq> None \<and> findCar d ctx vid cid \<noteq> None
       \<and> castIds (cbServiceIds body) = Some ids
       \<and> length (findActiveServices (serviceDocs d) (reqBusinessId ctx) ids)
           = length (cbServiceIds body))"
  (is "?rej \<or> ?run")
proof -
  have rejI: "?rej" if "createJob d ctx body now env r = rejected c b d r"
    and "c \<in> {400, 404, 500}" for c b
    using that by blast
  show ?thesis
  proof (cases "createValidators body")
    case False
    then have "createJob d ctx body now env r = rejected 400 Errors d r"
      by (simp add: createJob_def)
    then show ?thesis using rejI [of 400 Errors] by simp
  next
    case v: True
    show ?thesis
    proof (cases "canAccept (canAcceptNewJob d (reqBusinessId ctx))")
      case False
      with v have "createJob d ctx body now env r
          = rejected 400 (Message (case reason (canAcceptNewJob d (reqBusinessId ctx)) of
                                     Some m \<Rightarrow> m | None \<Rightarrow> [])) d r"
        by (simp add: createJob_def Let_def)
      then show ?thesis using rejI [of 400 "Message (case reason (canAcceptNewJob d (reqBusinessId ctx)) of Some m \<Rightarrow> m | None \<Rightarrow> [])"] by simp
    next
      case a: True
      show ?thesis
      proof (cases "castObjectId (cbCustomerId body)")
        case None
        with v a have "createJob d ctx body now env r = rejected 500 (Message ''Server error'') d r"
          by (simp add: createJob_def Let_def)
        then show ?thesis using rejI [of 500 "Message ''Server error''"] by simp
      next
        case cid: (Some cid)
        show ?thesis
        proof (cases "castObjectId (cbCarId body)")
          case None
          with v a cid have "createJob d ctx body now env r
              = rejected 500 (Message ''Server error'') d r"
            by (simp add: createJob_def Let_def)
          then show ?thesis using rejI [of 500 "Message ''Server error''"] by simp
        next
          case vid: (Some vid)
          show ?thesis
          proof (cases "findCustomer d ctx cid = None \<or> findCar d ctx vid cid = None")
            case True
            with v a cid vid have "createJob d ctx body now env r
                = rejected 404 (Message ''Customer or car not found'') d r"
              by (simp add: createJob_def Let_def)
            then show ?thesis using rejI [of 404 "Message ''Customer or car not found''"] by simp
          next
            case f: False
            show ?thesis
            proof (cases "castIds (cbServiceIds body)")
              case None
              with v a cid vid f have "createJob d ctx body now env r
                  = rejected 500 (Message ''Server error'') d r"
                by (auto simp add: createJob_def Let_def)
              then show ?thesis using rejI [of 500 "Message ''Server error''"] by simp
            next
              case ids: (Some ids)
              show ?thesis
              proof (cases "length (findActiveServices (serviceDocs d) (reqBusinessId ctx) ids)
                              = length (cbServiceIds body)")
                case False
                with v a cid vid f ids have "createJob d ctx body now env r
                    = rejected 400 (Message ''One or more services not found'') d r"
                  by (auto simp add: createJob_def Let_def)
                then show ?thesis using rejI [of 400 "Message ''One or more services not found''"] by simp
              next
                case True
                with v a cid vid f ids show ?thesis by blast
              qed
            qed
          qed
        qed
      qed
    qed
  qed
qed

lemma createJob_created:
  assumes "crResponse (createJob d ctx body now env r) = Resp 201 (JobBody j)"
  shows "\<exists>cid vid ids eta token assignee k.
           castIds (cbServiceIds body) = Some ids
         \<and> j = newJob ctx body cid vid
                 (findActiveServices (serviceDocs d) (reqBusinessId ctx) ids)
                 (foldl (\<lambda>sum s. sum + svc_price s) 0
                    (findActiveServices (serviceDocs d) (reqBusinessId ctx) ids))
                 eta token assignee (env k)
         \<and> crDb (createJob d ctx body now env r) = d\<lparr>jobs := jobs d @ [j]\<rparr>
         \<and> length (findActiveServices (serviceDocs d) (reqBusinessId ctx) ids)
             = length (cbServiceIds body)"
proof -
  from createJob_cases [of d ctx body now env r] assms
  obtain cid vid ids where pre: "createValidators body"
    "canAccept (canAcceptNewJob d (reqBusinessId ctx))"
    "castObjectId (cbCustomerId body) = Some cid" "castObjectId (cbCarId body) = Some vid"
    "findCustomer d ctx cid \<noteq> None" "findCar d ctx vid cid \<noteq> None"
    and ids: "castIds (cbServiceIds body) = Some ids"
    and len: "length (findActiveServices (serviceDocs d) (reqBusinessId ctx) ids)
               = length (cbServiceIds body)"
    by (auto simp add: rejected_fields)
  let ?svcs = "findActiveServices (serviceDocs d) (reqBusinessId ctx) ids"
  let ?p = "foldl (\<lambda>sum s. sum + svc_price s) 0 ?svcs"
  let ?eta = "case cbEstimatedDelivery body of Some t \<Rightarrow> t | None \<Rightarrow> calculateETA ?svcs now"
  let ?L = "createLoop d ctx body cid vid ?svcs ?p ?eta env r [] 0"
  note run = createJob_run [OF pre ids refl len refl refl, of now env r]
  from assms have out: "lrOutcome ?L = Inr j"
    unfolding run by (auto split: sum.splits)
  have db: "crDb (createJob d ctx body now env r) = lrDb ?L"
    unfolding run by simp
  from createLoop_outcome [of d ctx body cid vid ?svcs ?p ?eta env r "[]" 0] out
  obtain token assignee k where
    "j = newJob ctx body cid vid ?svcs ?p ?eta token assignee (env k)"
    "lrDb ?L = d\<lparr>jobs := jobs d @ [j]\<rparr>"
    by auto
  with db len ids show ?thesis by metis
qed

lemma createJob_db:
  "crDb (createJob d ctx body now env r) = d
   \<or> (\<exists>j. historyOk j \<and> crDb (createJob d ctx body now env r) = d\<lparr>jobs := jobs d @ [j]\<rparr>)"
proof -
  from createJob_cases [of d ctx body now env r]
  consider "crDb (createJob d ctx body now env r) = d"
    | cid vid ids where "createValidators body"
      "canAccept (canAcceptNewJob d (reqBusinessId ctx))"
      "castObjectId (cbCustomerId body) = Some cid" "castObjectId (cbCarId body) = Some vid"
      "findCustomer d ctx cid \<noteq> None" "findCar d ctx vid cid \<noteq> None"
      "castIds (cbServiceIds body) = Some ids"
      "length (findActiveServices (serviceDocs d) (reqBusinessId ctx) ids)
         = length (cbServiceIds body)"
    by (auto simp add: rejected_fields)
  then show ?thesis
  proof cases
    case 1
    then show ?thesis by simp
  next
    case 2
    let ?svcs = "findActiveServices (serviceDocs d) (reqBusinessId ctx) ids"
    let ?p = "foldl (\<lambda>sum s. sum + svc_price s) 0 ?svcs"
    let ?eta = "case cbEstimatedDelivery body of Some t \<Rightarrow> t | None \<Rightarrow> calculateETA ?svcs now"
    let ?L = "createLoop d ctx body cid vid ?svcs ?p ?eta env r [] 0"
    have "crDb (createJob d ctx body now env r) = lrDb ?L"
      unfolding createJob_run [OF 2(1-7) refl 2(8) refl refl, of now env r] by simp
    with createLoop_outcome [of d ctx body cid vid ?svcs ?p ?eta env r "[]" 0] newJob_historyOk
    show ?thesis by metis
  qed
qed

lemma reachable_historyOk: "reachable d \<Longrightarrow> j \<in> set (jobs d) \<Longrightarrow> historyOk j"
proof (induction arbitrary: j rule: reachable.induct)
  case (start d)
  then show ?case by simp
next
  case (created d ctx body now env r)
  with createJob_db [of d ctx body now env r] show ?case by auto
next
  case (updated d ctx jid body now)
  with update_db [of d ctx jid body now] show ?case
    by (auto simp add: saveJob_def applyStatus_historyOk split: if_splits)
next
  case (cascade d bid)
  then show ?case by simp
qed

subsection \<open>The example run\<close>

lemma ex_dateStr: "dateStrOf (today exClock) = ''20260208''"
  by (simp add: exClock_def dateStrOf_def toISOString_def isoYear_def pad2_def pad3_def
      pad4_def digitChar_def)

lemma advance_exRand: "advance exRand = exRand"
  by (simp add: advance_def exRand_def)

lemma ex_suffix6: "generateRandomString 6 exRand = (''AAAAAA'', exRand)"
  by (simp add: eval_nat_numeral advance_exRand chars_def charAt_def) (simp add: exRand_def)


lemma ex_token: "generateTokenNumber [] bid exClock exRand = (''20260208-AAAAAA'', exRand)"
  by (simp add: generateTokenNumber_def ex_dateStr tokenLoop.simps [of _ _ _ _ 0]
      maxTokenAttempts_def ex_suffix6 findJobByToken_def)

lemma ex_found:
  "findActiveServices (serviceDocs exDb0) 8 [15, 17]
     = [\<lparr>svc_id = 15, svc_businessId = 8, svc_price = 300, svc_maxTime = 20, svc_isActive = True\<rparr>,
        \<lparr>svc_id = 17, svc_businessId = 8, svc_price = 200, svc_maxTime = 10, svc_isActive = True\<rparr>]"
  "findActiveServices exServices 8 [15, 17] = findActiveServices (serviceDocs exDb0) 8 [15, 17]"
  by (simp_all add: findActiveServices_def exDb0_def exServices_def)

lemma ex_accept0: "canAccept (canAcceptNewJob exDb0 8)"
  by (simp add: canAcceptNewJob_def findBusinessById_def exDb0_def exSingle_def exMultiple_def
      activeJobsCount_def)

lemma ex_owner: "findCustomer exDb0 (exAdmin 8) 13 \<noteq> None"
  "findCar exDb0 (exAdmin 8) 14 13 \<noteq> None"
  by (simp_all add: findCustomer_def findCar_def exDb0_def exAdmin_def)

lemma ex_pass:
  "generateTokenNumber (jobs exDb0) (reqBusinessId (exAdmin 8)) (tokenClock (exEnv n a)) exRand
     = (''20260208-AAAAAA'', exRand)"
  by (simp add: exDb0_def exEnv_def ex_token)

lemma ex_doc:
  "newJob (exAdmin 8) (exBody [15, 17]) 13 14 (findActiveServices (serviceDocs exDb0) 8 [15, 17])
     500 1800000 ''20260208-AAAAAA''
     (resolveAssignee exDb0 (exAdmin 8) (cbAssignedTo (exBody [15, 17]))) (exEnv 0 0)
   = exCreated"
  by (simp add: exCreated_def ex_found(2) resolveAssignee_def exAdmin_def exBody_def)

lemma ex_insert:
  "Job_create (jobs exDb0) exCreated (insertFault (exEnv 0 0)) = Inr [exCreated]"
  by (simp add: Job_create_def exEnv_def exDb0_def findJobByToken_def)

lemma ex_loop:
  "createLoop exDb0 (exAdmin 8) (exBody [15, 17]) 13 14
     (findActiveServices (serviceDocs exDb0) 8 [15, 17]) 500 1800000 (exEnv 0) exRand [] 0
   = \<lparr>lrOutcome = Inr exCreated, lrDb = exDb0\<lparr>jobs := [exCreated]\<rparr>, lrRand = exRand,
      lrWaits = [], lrAttempts = 0\<rparr>"
  using createLoop_done [where env = "exEnv 0" and a = 0 and d = exDb0 and ctx = "exAdmin 8"
      and body = "exBody [15, 17]" and cid = 13 and vid = 14 and p = 500 and eta = 1800000
      and waits = "[]"
      and svcs = "findActiveServices (serviceDocs exDb0) 8 [15, 17]", OF _ ex_pass]
    ex_insert
  by (simp add: ex_doc maxCreateAttempts_def)

lemma ex_body:
  "createValidators (exBody ids) = (ids \<noteq> [])"
  "castObjectId (cbCustomerId (exBody ids)) = Some 13"
  "castObjectId (cbCarId (exBody ids)) = Some 14"
  "castIds (cbServiceIds (exBody ids)) = Some ids"
  "cbEstimatedDelivery (exBody ids) = None"
  "length (cbServiceIds (exBody ids)) = length ids"
  by (auto simp add: createValidators_def exBody_def castIds_map Suc_le_eq)

lemma ex_createJob:
  "createJob exDb0 (exAdmin 8) (exBody [15, 17]) 0 (exEnv 0) exRand
   = \<lparr>crResponse = Resp 201 (JobBody exCreated), crDb = exDb0\<lparr>jobs := [exCreated]\<rparr>,
      crRand = exRand, crWaits = []\<rparr>"
proof -
  have b: "reqBusinessId (exAdmin 8) = 8"
    by (simp add: exAdmin_def)
  have p: "foldl (\<lambda>sum s. sum + svc_price s) 0 (findActiveServices (serviceDocs exDb0) 8 [15, 17]) = 500"
    "calculateETA (findActiveServices (serviceDocs exDb0) 8 [15, 17]) 0 = 1800000"
    "length (findActiveServices (serviceDocs exDb0) 8 [15, 17]) = 2"
    by (simp_all add: ex_found(1) calculateETA_def)
  show ?thesis
    using ex_accept0
    by (simp add: createJob_def ex_body ex_owner b p ex_loop)
qed











text \<open>
  C8. A job that creation returns has status RECEIVED and a history of exactly one
  entry, with status RECEIVED, and is in the database. A status update that succeeds
  returns the job with the requested status and the former history followed by exactly
  one entry with that status, and stores it. Hence every job of a database the routes
  have produced has a non-empty history whose last entry carries the job's status.
\<close>

theorem C8_history_invariant:
  "(crResponse (createJob d ctx body now env r) = Resp 201 (JobBody j) \<longrightarrow>
      status j = ''RECEIVED''
    \<and> length (statusHistory j) = 1
    \<and> hStatus (hd (statusHistory j)) = ''RECEIVED''
    \<and> j \<in> set (jobs (crDb (createJob d ctx body now env r))))
   \<and> (fst (updateJobStatus d1 ctx1 jid sb t) = Resp 200 (JobBody j') \<longrightarrow>
        status j' = sbStatus sb
      \<and> (\<exists>j0. findJobForUpdate d1 ctx1 jid = Some j0
             \<and> statusHistory j' = statusHistory j0
                  @ [\<lparr>hStatus = sbStatus sb, hNotes = notesOf (sbNotes sb), changedAt = t\<rparr>])
      \<and> j' \<in> set (jobs (snd (updateJobStatus d1 ctx1 jid sb t))))
   \<and> (reachable d2 \<longrightarrow>
        (\<forall>k \<in> set (jobs d2). statusHistory k \<noteq> []
                                \<and> hStatus (last (statusHistory k)) = status k))"
proof (intro conjI impI)
  assume ok: "crResponse (createJob d ctx body now env r) = Resp 201 (JobBody j)"
  from createJob_created [OF ok] obtain cid vid ids eta token assignee k where
    j: "j = newJob ctx body cid vid
             (findActiveServices (serviceDocs d) (reqBusinessId ctx) ids)
             (foldl (\<lambda>sum s. sum + svc_price s) 0
                (findActiveServices (serviceDocs d) (reqBusinessId ctx) ids))
             eta token assignee (env k)"
    and db: "crDb (createJob d ctx body now env r) = d\<lparr>jobs := jobs d @ [j]\<rparr>"
    by blast
  show "status j = ''RECEIVED''" by (subst j) (simp add: newJob_def)
  show "length (statusHistory j) = 1" by (subst j) (simp add: newJob_def)
  show "hStatus (hd (statusHistory j)) = ''RECEIVED''" by (subst j) (simp add: newJob_def)
  show "j \<in> set (jobs (crDb (createJob d ctx body now env r)))" by (simp add: db)
next
  assume ok: "fst (updateJobStatus d1 ctx1 jid sb t) = Resp 200 (JobBody j')"
  from update_success [OF ok] obtain j0 where
    f: "findJobForUpdate d1 ctx1 jid = Some j0" and j': "j' = applyStatus j0 sb t"
    and db: "snd (updateJobStatus d1 ctx1 jid sb t) = saveJob d1 j'"
    by blast
  show "status j' = sbStatus sb" by (simp add: j' applyStatus_status)
  show "\<exists>j0. findJobForUpdate d1 ctx1 jid = Some j0
          \<and> statusHistory j' = statusHistory j0
               @ [\<lparr>hStatus = sbStatus sb, hNotes = notesOf (sbNotes sb), changedAt = t\<rparr>]"
    using f by (simp add: j' applyStatus_history)
  show "j' \<in> set (jobs (snd (updateJobStatus d1 ctx1 jid sb t)))"
    unfolding db using findJobForUpdate_Some [OF f]
    by (intro saveJob_member [of j0]) (simp_all add: j' applyStatus_job_id)
next
  assume "reachable d2"
  then show "\<forall>k \<in> set (jobs d2). statusHistory k \<noteq> [] \<and> hStatus (last (statusHistory k)) = status k"
    using reachable_historyOk by (auto simp add: historyOk_def)
qed

lemma ex_update:
  "updateJobStatus exDb (exAdmin 7) 1 exCompleted 5000
     = (Resp 200 (JobBody (applyStatus exJob exCompleted 5000)),
        exDb\<lparr>jobs := [applyStatus exJob exCompleted 5000]\<rparr>)"
proof -
  have f: "findJobForUpdate exDb (exAdmin 7) 1 = Some exJob"
    by (simp add: findJobForUpdate_def exDb_def exJob_def exAdmin_def)
  have v: "statusValidators exCompleted" "sbStatus exCompleted = ''COMPLETED''"
    by (simp_all add: statusValidators_def statusValidatorList_def exCompleted_def)
  have t: "isValidStatusTransition (status exJob) ''COMPLETED''"
    by (simp add: isValidStatusTransition_def indexOf_statusOrder exJob_def)
  have s: "saveJob exDb (applyStatus exJob exCompleted 5000)
             = exDb\<lparr>jobs := [applyStatus exJob exCompleted 5000]\<rparr>"
    by (simp add: saveJob_def applyStatus_job_id) (simp add: exDb_def)
  show ?thesis unfolding updateJobStatus_def Let_def using f v t s by simp
qed

theorem C8_history_invariant_witness:
  "crResponse (createJob exDb0 (exAdmin 8) (exBody [15, 17]) 0 (exEnv 0) exRand)
     = Resp 201 (JobBody exCreated)
   \<and> status exCreated = ''RECEIVED''
   \<and> statusHistory exCreated = [\<lparr>hStatus = ''RECEIVED'', hNotes = None, changedAt = 1000\<rparr>]
   \<and> fst (updateJobStatus exDb (exAdmin 7) 1 exCompleted 5000)
       = Resp 200 (JobBody (applyStatus exJob exCompleted 5000))
   \<and> status (applyStatus exJob exCompleted 5000) = ''COMPLETED''
   \<and> statusHistory (applyStatus exJob exCompleted 5000)
       = [\<lparr>hStatus = ''RECEIVED'', hNotes = None, changedAt = 0\<rparr>,
          \<lparr>hStatus = ''COMPLETED'', hNotes = Some ''dried'', changedAt = 5000\<rparr>]
   \<and> reachable (exDb0\<lparr>jobs := [exCreated]\<rparr>)
   \<and> hStatus (last (statusHistory exCreated)) = status exCreated"
proof -
  have c: "crResponse (createJob exDb0 (exAdmin 8) (exBody [15, 17]) 0 (exEnv 0) exRand)
             = Resp 201 (JobBody exCreated)"
    by (simp add: ex_createJob)
  have u: "fst (updateJobStatus exDb (exAdmin 7) 1 exCompleted 5000)
             = Resp 200 (JobBody (applyStatus exJob exCompleted 5000))"
    unfolding ex_update by simp
  have "reachable (crDb (createJob exDb0 (exAdmin 8) (exBody [15, 17]) 0 (exEnv 0) exRand))"
    by (rule reachable.created, rule reachable.start) (simp add: exDb0_def)
  then have r: "reachable (exDb0\<lparr>jobs := [exCreated]\<rparr>)"
    by (simp add: ex_createJob)
  have h: "statusHistory exCreated = [\<lparr>hStatus = ''RECEIVED'', hNotes = None, changedAt = 1000\<rparr>]"
    by (simp add: exCreated_def newJob_def exEnv_def)
  have f: "findJobForUpdate exDb (exAdmin 7) 1 = Some exJob"
    by (simp add: findJobForUpdate_def exDb_def exJob_def exAdmin_def)
  note T = C8_history_invariant [of exDb0 "exAdmin 8" "exBody [15, 17]" 0 "exEnv 0" exRand exCreated
      exDb "exAdmin 7" 1 exCompleted 5000 "applyStatus exJob exCompleted 5000"
      "exDb0\<lparr>jobs := [exCreated]\<rparr>"]
  from T [THEN conjunct1, THEN mp, OF c]
  have a: "status exCreated = ''RECEIVED''" by blast
  from T [THEN conjunct2, THEN conjunct1, THEN mp, OF u] f
  have b: "status (applyStatus exJob exCompleted 5000) = ''COMPLETED''
      \<and> statusHistory (applyStatus exJob exCompleted 5000)
          = [\<lparr>hStatus = ''RECEIVED'', hNotes = None, changedAt = 0\<rparr>,
             \<lparr>hStatus = ''COMPLETED'', hNotes = Some ''dried'', changedAt = 5000\<rparr>]"
    by (simp add: exCompleted_def exJob_def)
  from T [THEN conjunct2, THEN conjunct2, THEN mp, OF r]
  have k: "hStatus (last (statusHistory exCreated)) = status exCreated"
    by simp
  from a b k c u r h show ?thesis by simp
qed

section \<open>Theorems on the token allocator\<close>

lemma unitDraws_advance: "unitDraws r \<Longrightarrow> unitDraws (advance r)"
  by (simp add: unitDraws_def advance_def)

lemma length_chars: "length chars = 32"
  by (simp add: chars_def)

lemma charAt_chars:
  assumes "0 \<le> u" and "u < 1"
  shows "\<exists>c. charAt chars \<lfloor>u * real (length chars)\<rfloor> = [c] \<and> c \<in> set chars"
proof -
  have lo: "0 \<le> \<lfloor>u * 32\<rfloor>" using assms(1) by simp
  have "u * 32 < 32" using assms(2) by simp
  then have hi: "\<lfloor>u * 32\<rfloor> < 32" by (simp add: floor_less_iff)
  from lo hi have "nat \<lfloor>u * 32\<rfloor> < 32" by linarith
  then have "nat \<lfloor>u * 32\<rfloor> < length chars" by (simp only: length_chars)
  then have "chars ! nat \<lfloor>u * 32\<rfloor> \<in> set chars" by (rule nth_mem)
  with lo hi show ?thesis by (simp add: charAt_def length_chars)
qed

lemma generateRandomString_props:
  "unitDraws r \<Longrightarrow>
     length (fst (generateRandomString n r)) = n
   \<and> set (fst (generateRandomString n r)) \<subseteq> set chars
   \<and> unitDraws (snd (generateRandomString n r))"
proof (induction n arbitrary: r)
  case 0
  then show ?case by simp
next
  case (Suc n)
  from Suc.prems have "0 \<le> r 0" "r 0 < 1" by (simp_all add: unitDraws_def)
  from charAt_chars [OF this] obtain c where
    c: "charAt chars \<lfloor>r 0 * real (length chars)\<rfloor> = [c]" "c \<in> set chars" by blast
  from Suc.IH [OF unitDraws_advance [OF Suc.prems]] c show ?case
    by (simp add: Let_def split_beta)
qed





lemma tokenLoop_free:
  assumes "a < maxTokenAttempts" and "generateRandomString 6 r = (suffix, r')"
    and "findJobByToken js bid (ds @ ''-'' @ suffix) = None"
  shows "tokenLoop js bid ds r a = (Some (ds @ ''-'' @ suffix), r')"
  using assms by (subst tokenLoop.simps) (simp add: Let_def)

lemma tokenLoop_taken:
  assumes "a < maxTokenAttempts" and "generateRandomString 6 r = (suffix, r')"
    and "findJobByToken js bid (ds @ ''-'' @ suffix) \<noteq> None"
  shows "tokenLoop js bid ds r a = tokenLoop js bid ds r' (a + 1)"
  using assms by (subst tokenLoop.simps) (auto simp add: Let_def)

lemma tokenLoop_exhausted:
  assumes "\<not> a < maxTokenAttempts"
  shows "tokenLoop js bid ds r a = (None, r)"
  using assms by (subst tokenLoop.simps) simp




lemma tokenLoop_unitDraws:
  "unitDraws r \<Longrightarrow> unitDraws (snd (tokenLoop js bid ds r a))"
proof (induction js bid ds r a rule: tokenLoop.induct)
  case (1 js bid ds r a)
  show ?case
  proof (cases "a < maxTokenAttempts")
    case False
    with "1.prems" show ?thesis by (simp add: tokenLoop_exhausted)
  next
    case True
    obtain suffix r' where g: "generateRandomString 6 r = (suffix, r')"
      by (cases "generateRandomString 6 r")
    from generateRandomString_props [OF "1.prems", of 6] g have p: "unitDraws r'" by simp
    show ?thesis
    proof (cases "findJobByToken js bid (ds @ ''-'' @ suffix) = None")
      case free: True
      show ?thesis unfolding tokenLoop_free [OF True g free] using p by simp
    next
      case taken: False
      show ?thesis unfolding tokenLoop_taken [OF True g taken]
        using "1.IH" [OF True refl g [symmetric] refl taken p] .
    qed
  qed
qed




lemma unitDraws_exRand: "unitDraws exRand"
  by (simp add: unitDraws_def exRand_def)















section \<open>Theorems on the retry loop\<close>

lemma generateTokenNumber_unitDraws:
  assumes "unitDraws r"
  shows "unitDraws (snd (generateTokenNumber js bid clk r))"
proof (cases "tokenLoop js bid (dateStrOf (today clk)) r 0")
  case (Pair res r')
  from tokenLoop_unitDraws [OF assms, of js bid "dateStrOf (today clk)" 0] Pair
  have u: "unitDraws r'" by simp
  show ?thesis
  proof (cases res)
    case None
    with Pair generateRandomString_props [OF u, of 4] show ?thesis
      by (simp add: generateTokenNumber_def fallbackToken_def Let_def split_beta)
  next
    case (Some t)
    with Pair u show ?thesis by (simp add: generateTokenNumber_def)
  qed
qed

lemma randBefore_unitDraws: "unitDraws r \<Longrightarrow> unitDraws (randBefore d ctx env r k)"
  by (induction k) (simp_all add: unitDraws_advance generateTokenNumber_unitDraws)

lemma passBackoff_range:
  assumes "unitDraws r"
  shows "0 \<le> passBackoff d ctx env r k \<and> passBackoff d ctx env r k < 100"
proof -
  have "unitDraws (snd (generateTokenNumber (jobs d) (reqBusinessId ctx) (tokenClock (env k))
                          (randBefore d ctx env r k)))"
    using assms by (intro generateTokenNumber_unitDraws randBefore_unitDraws)
  then show ?thesis by (simp add: passBackoff_def unitDraws_def)
qed

lemma pass_generate:
  "generateTokenNumber (jobs d) (reqBusinessId ctx) (tokenClock (env k)) (randBefore d ctx env r k)
     = (passToken d ctx env r k,
        snd (generateTokenNumber (jobs d) (reqBusinessId ctx) (tokenClock (env k))
               (randBefore d ctx env r k)))"
  by (simp add: passToken_def)

lemma createLoop_prefix:
  assumes "k < maxCreateAttempts"
    and "\<forall>i<k. isDuplicate (passInsert d ctx body cid vid svcs p eta env r i)"
  shows "createLoop d ctx body cid vid svcs p eta env r [] 0
       = createLoop d ctx body cid vid svcs p eta env (randBefore d ctx env r k)
           (map (passBackoff d ctx env r) [0..<k]) k"
  using assms
proof (induction k)
  case 0
  show ?case by simp
next
  case (Suc k)
  from Suc.prems have lt: "k < maxCreateAttempts - 1" and lt': "k < maxCreateAttempts"
    and dup: "isDuplicate (passInsert d ctx body cid vid svcs p eta env r k)"
    and earlier: "\<forall>i<k. isDuplicate (passInsert d ctx body cid vid svcs p eta env r i)"
    by simp_all
  from dup obtain err where
    ins: "Job_create (jobs d)
            (newJob ctx body cid vid svcs p eta (passToken d ctx env r k)
               (resolveAssignee d ctx (cbAssignedTo body)) (env k))
            (insertFault (env k)) = Inl err"
    and code: "errorCode err = Some 11000"
    by (cases "passInsert d ctx body cid vid svcs p eta env r k")
      (simp_all add: passInsert_def passDoc_def)
  have "createLoop d ctx body cid vid svcs p eta env r [] 0
      = createLoop d ctx body cid vid svcs p eta env (randBefore d ctx env r k)
          (map (passBackoff d ctx env r) [0..<k]) k"
    using Suc.IH [OF lt' earlier] .
  also have "\<dots> = createLoop d ctx body cid vid svcs p eta env (randBefore d ctx env r (Suc k))
          (map (passBackoff d ctx env r) [0..<Suc k]) (Suc k)"
    using createLoop_retry [where env = env and a = k, OF lt pass_generate ins code,
        of "map (passBackoff d ctx env r) [0..<k]"]
    by (simp add: passBackoff_def)
  finally show ?case .
qed

lemma createLoop_bound:
  "lrAttempts (createLoop d ctx body cid vid svcs p eta env r waits a) < maxCreateAttempts \<or>
   lrAttempts (createLoop d ctx body cid vid svcs p eta env r waits a) = a"
proof (induction d ctx body cid vid svcs p eta env r waits a rule: createLoop.induct)
  case (1 d ctx body cid vid svcs p eta env r waits a)
  show ?case
  proof (cases "a < maxCreateAttempts")
    case False
    then show ?thesis by (subst (2) createLoop.simps) simp
  next
    case True
    obtain token r1 where
      g: "generateTokenNumber (jobs d) (reqBusinessId ctx) (tokenClock (env a)) r = (token, r1)"
      by (cases "generateTokenNumber (jobs d) (reqBusinessId ctx) (tokenClock (env a)) r")
    let ?doc = "newJob ctx body cid vid svcs p eta token (resolveAssignee d ctx (cbAssignedTo body)) (env a)"
    show ?thesis
    proof (cases "Job_create (jobs d) ?doc (insertFault (env a))")
      case (Inr js')
      show ?thesis
        unfolding createLoop_done [where env = env and a = a, OF True g Inr] by simp
    next
      case (Inl err)
      show ?thesis
      proof (cases "errorCode err = Some 11000 \<and> a < maxCreateAttempts - 1")
        case retry: True
        then have c: "errorCode err = Some 11000" and l: "a < maxCreateAttempts - 1"
          by simp_all
        show ?thesis
          unfolding createLoop_retry [where env = env and a = a, OF l g Inl c]
          using "1.IH" [OF True refl refl g [symmetric] refl refl Inl retry] l by auto
      next
        case False
        with True have stop: "errorCode err \<noteq> Some 11000 \<or> a = maxCreateAttempts - 1"
          by auto
        show ?thesis
          unfolding createLoop_throw [where env = env and a = a, OF True g Inl stop] by simp
      qed
    qed
  qed
qed

text \<open>
  C4. The creation loop makes at most five passes (\<open>maxAttempts\<close> is 5: the first try
  and up to four retries). While every pass so far has failed with the duplicate-key
  code 11000, the next pass generates a token afresh and submits the whole document
  again, after a backoff of \<open>Math.random() * 100\<close> milliseconds, which lies in
  \<open>[0, 100)\<close>. A pass whose insert succeeds ends the loop with the job. A pass whose
  insert fails ends the loop with that error, without another pass, when the error is
  not the duplicate-key error or when the pass is the fifth; the route then answers
  with status 500.
\<close>

theorem C4_retry_on_duplicate:
  assumes "k < maxCreateAttempts"
    and "\<forall>i<k. isDuplicate (passInsert d ctx body cid vid svcs p eta env r i)"
  shows "maxCreateAttempts = 5
       \<and> (\<forall>js'. passInsert d ctx body cid vid svcs p eta env r k = Inr js' \<longrightarrow>
            createLoop d ctx body cid vid svcs p eta env r [] 0
              = \<lparr>lrOutcome = Inr (passDoc d ctx body cid vid svcs p eta env r k),
                 lrDb = d\<lparr>jobs := js'\<rparr>,
                 lrRand = snd (generateTokenNumber (jobs d) (reqBusinessId ctx)
                                 (tokenClock (env k)) (randBefore d ctx env r k)),
                 lrWaits = map (passBackoff d ctx env r) [0..<k], lrAttempts = k\<rparr>)
       \<and> (\<forall>e. passInsert d ctx body cid vid svcs p eta env r k = Inl e
               \<and> (errorCode e \<noteq> Some 11000 \<or> k = maxCreateAttempts - 1) \<longrightarrow>
            createLoop d ctx body cid vid svcs p eta env r [] 0
              = \<lparr>lrOutcome = Inl e, lrDb = d,
                 lrRand = snd (generateTokenNumber (jobs d) (reqBusinessId ctx)
                                 (tokenClock (env k)) (randBefore d ctx env r k)),
                 lrWaits = map (passBackoff d ctx env r) [0..<k], lrAttempts = k\<rparr>)
       \<and> (unitDraws r \<longrightarrow>
            (\<forall>w \<in> set (map (passBackoff d ctx env r) [0..<k]). 0 \<le> w \<and> w < 100))
       \<and> lrAttempts (createLoop d ctx body cid vid svcs p eta env r [] 0) < maxCreateAttempts
       \<and> (createValidators body \<and> canAccept (canAcceptNewJob d (reqBusinessId ctx))
            \<and> castObjectId (cbCustomerId body) = Some cid
            \<and> castObjectId (cbCarId body) = Some vid
            \<and> findCustomer d ctx cid \<noteq> None \<and> findCar d ctx vid cid \<noteq> None
            \<and> castIds (cbServiceIds body) = Some ids
            \<and> svcs = findActiveServices (serviceDocs d) (reqBusinessId ctx) ids
            \<and> length svcs = length (cbServiceIds body)
            \<and> p = foldl (\<lambda>sum s. sum + svc_price s) 0 svcs
            \<and> eta = (case cbEstimatedDelivery body of
                        Some t \<Rightarrow> t | None \<Rightarrow> calculateETA svcs now) \<longrightarrow>
            createJob d ctx body now env r
              = \<lparr>crResponse =
                   (case lrOutcome (createLoop d ctx body cid vid svcs p eta env r [] 0) of
                      Inr created \<Rightarrow> Resp 201 (JobBody created)
                    | Inl err \<Rightarrow> Resp 500 (Message ''Server error'')),
                 crDb = lrDb (createLoop d ctx body cid vid svcs p eta env r [] 0),
                 crRand = lrRand (createLoop d ctx body cid vid svcs p eta env r [] 0),
                 crWaits = lrWaits (createLoop d ctx body cid vid svcs p eta env r [] 0)\<rparr>)"
proof (intro conjI allI impI)
  show "maxCreateAttempts = 5" by (simp add: maxCreateAttempts_def)
next
  fix js' assume "passInsert d ctx body cid vid svcs p eta env r k = Inr js'"
  then have ins: "Job_create (jobs d)
            (newJob ctx body cid vid svcs p eta (passToken d ctx env r k)
               (resolveAssignee d ctx (cbAssignedTo body)) (env k))
            (insertFault (env k)) = Inr js'"
    by (simp add: passInsert_def passDoc_def)
  show "createLoop d ctx body cid vid svcs p eta env r [] 0
      = \<lparr>lrOutcome = Inr (passDoc d ctx body cid vid svcs p eta env r k), lrDb = d\<lparr>jobs := js'\<rparr>,
         lrRand = snd (generateTokenNumber (jobs d) (reqBusinessId ctx)
                         (tokenClock (env k)) (randBefore d ctx env r k)),
         lrWaits = map (passBackoff d ctx env r) [0..<k], lrAttempts = k\<rparr>"
    unfolding createLoop_prefix [OF assms]
    using createLoop_done [where env = env and a = k, OF assms(1) pass_generate ins]
    by (simp add: passDoc_def)
next
  fix e assume a: "passInsert d ctx body cid vid svcs p eta env r k = Inl e
               \<and> (errorCode e \<noteq> Some 11000 \<or> k = maxCreateAttempts - 1)"
  then have ins: "Job_create (jobs d)
            (newJob ctx body cid vid svcs p eta (passToken d ctx env r k)
               (resolveAssignee d ctx (cbAssignedTo body)) (env k))
            (insertFault (env k)) = Inl e"
    and stop: "errorCode e \<noteq> Some 11000 \<or> k = maxCreateAttempts - 1"
    by (simp_all add: passInsert_def passDoc_def)
  show "createLoop d ctx body cid vid svcs p eta env r [] 0
      = \<lparr>lrOutcome = Inl e, lrDb = d,
         lrRand = snd (generateTokenNumber (jobs d) (reqBusinessId ctx)
                         (tokenClock (env k)) (randBefore d ctx env r k)),
         lrWaits = map (passBackoff d ctx env r) [0..<k], lrAttempts = k\<rparr>"
    unfolding createLoop_prefix [OF assms]
    using createLoop_throw [where env = env and a = k, OF assms(1) pass_generate ins stop]
    by simp
next
  assume "unitDraws r"
  then show "\<forall>w \<in> set (map (passBackoff d ctx env r) [0..<k]). 0 \<le> w \<and> w < 100"
    using passBackoff_range by auto
next
  show "lrAttempts (createLoop d ctx body cid vid svcs p eta env r [] 0) < maxCreateAttempts"
    using createLoop_bound [of d ctx body cid vid svcs p eta env r "[]" 0]
    by (auto simp add: maxCreateAttempts_def)
next
  assume "createValidators body \<and> canAccept (canAcceptNewJob d (reqBusinessId ctx))
            \<and> castObjectId (cbCustomerId body) = Some cid
            \<and> castObjectId (cbCarId body) = Some vid
            \<and> findCustomer d ctx cid \<noteq> None \<and> findCar d ctx vid cid \<noteq> None
            \<and> castIds (cbServiceIds body) = Some ids
            \<and> svcs = findActiveServices (serviceDocs d) (reqBusinessId ctx) ids
            \<and> length svcs = length (cbServiceIds body)
            \<and> p = foldl (\<lambda>sum s. sum + svc_price s) 0 svcs
            \<and> eta = (case cbEstimatedDelivery body of
                        Some t \<Rightarrow> t | None \<Rightarrow> calculateETA svcs now)"
  then show "createJob d ctx body now env r
              = \<lparr>crResponse =
                   (case lrOutcome (createLoop d ctx body cid vid svcs p eta env r [] 0) of
                      Inr created \<Rightarrow> Resp 201 (JobBody created)
                    | Inl err \<Rightarrow> Resp 500 (Message ''Server error'')),
                 crDb = lrDb (createLoop d ctx body cid vid svcs p eta env r [] 0),
                 crRand = lrRand (createLoop d ctx body cid vid svcs p eta env r [] 0),
                 crWaits = lrWaits (createLoop d ctx body cid vid svcs p eta env r [] 0)\<rparr>"
    by (auto simp add: createJob_def Let_def split: sum.splits)
qed

lemma ex_randBefore: "randBefore exDb0 (exAdmin 8) (exEnv n) exRand k = exRand"
  by (induction k) (simp_all add: ex_pass advance_exRand)

lemma ex_passToken: "passToken exDb0 (exAdmin 8) (exEnv n) exRand k = ''20260208-AAAAAA''"
  by (simp add: passToken_def ex_randBefore ex_pass)

lemma ex_passBackoff: "passBackoff exDb0 (exAdmin 8) (exEnv n) exRand k = 0"
  by (simp add: passBackoff_def ex_randBefore ex_pass) (simp add: exRand_def)

lemma ex_waits:
  "map (passBackoff exDb0 (exAdmin 8) (exEnv n) exRand) [0..<4] = [0, 0, 0, 0]"
proof -
  have "passBackoff exDb0 (exAdmin 8) (exEnv n) exRand = (\<lambda>k. 0)"
    by (rule ext) (simp add: ex_passBackoff)
  then show ?thesis by (simp add: map_replicate_const eval_nat_numeral)
qed

lemma ex_passInsert:
  "passInsert exDb0 (exAdmin 8) body cid vid svcs p eta (exEnv n) exRand k
     = (if k < n then Inl duplicateKey
        else Inr [passDoc exDb0 (exAdmin 8) body cid vid svcs p eta (exEnv n) exRand k])"
  by (simp add: passInsert_def Job_create_def exEnv_def exDb0_def findJobByToken_def)

lemma ex_passInsertLost:
  "passInsert exDb0 (exAdmin 8) body cid vid svcs p eta exEnvLost exRand 0
     = Inl (JsError None ''connection lost'')"
  by (simp add: passInsert_def Job_create_def exEnvLost_def)

lemma ex_lostRand:
  "snd (generateTokenNumber (jobs exDb0) (reqBusinessId (exAdmin 8)) (tokenClock (exEnvLost 0))
          exRand) = exRand"
  by (simp add: exDb0_def exEnvLost_def ex_token)

theorem C4_retry_on_duplicate_witness:
  "isDuplicate (passInsert exDb0 (exAdmin 8) (exBody [15, 17]) 13 14 exServices 500 1800000
                  (exEnv 1) exRand 0)
   \<and> createLoop exDb0 (exAdmin 8) (exBody [15, 17]) 13 14 exServices 500 1800000 (exEnv 1) exRand [] 0
       = \<lparr>lrOutcome = Inr (passDoc exDb0 (exAdmin 8) (exBody [15, 17]) 13 14 exServices 500 1800000
                               (exEnv 1) exRand 1),
          lrDb = exDb0\<lparr>jobs := [passDoc exDb0 (exAdmin 8) (exBody [15, 17]) 13 14 exServices 500
                                     1800000 (exEnv 1) exRand 1]\<rparr>,
          lrRand = exRand, lrWaits = [0], lrAttempts = 1\<rparr>
   \<and> tokenNumber (passDoc exDb0 (exAdmin 8) (exBody [15, 17]) 13 14 exServices 500 1800000
                      (exEnv 1) exRand 1) = ''20260208-AAAAAA''
   \<and> isDuplicate (passInsert exDb0 (exAdmin 8) (exBody [15, 17]) 13 14 exServices 500 1800000
                    (exEnv 5) exRand 3)
   \<and> createLoop exDb0 (exAdmin 8) (exBody [15, 17]) 13 14 exServices 500 1800000 (exEnv 5) exRand [] 0
       = \<lparr>lrOutcome = Inl duplicateKey, lrDb = exDb0, lrRand = exRand,
          lrWaits = [0, 0, 0, 0], lrAttempts = 4\<rparr>
   \<and> createLoop exDb0 (exAdmin 8) (exBody [15, 17]) 13 14 exServices 500 1800000 exEnvLost exRand [] 0
       = \<lparr>lrOutcome = Inl (JsError None ''connection lost''), lrDb = exDb0, lrRand = exRand,
          lrWaits = [], lrAttempts = 0\<rparr>
   \<and> unitDraws exRand"
proof -
  have one: "(1::nat) < maxCreateAttempts" and four: "(4::nat) < maxCreateAttempts"
    and zero: "(0::nat) < maxCreateAttempts"
    by (simp_all add: maxCreateAttempts_def)
  have d1: "\<forall>i<1. isDuplicate (passInsert exDb0 (exAdmin 8) (exBody [15, 17]) 13 14 exServices 500
                                   1800000 (exEnv 1) exRand i)"
    by (simp add: ex_passInsert duplicateKey_def)
  have d4: "\<forall>i<4. isDuplicate (passInsert exDb0 (exAdmin 8) (exBody [15, 17]) 13 14 exServices 500
                                   1800000 (exEnv 5) exRand i)"
    by (simp add: ex_passInsert duplicateKey_def)
  have d0: "\<forall>i<0. isDuplicate (passInsert exDb0 (exAdmin 8) (exBody [15, 17]) 13 14 exServices 500
                                   1800000 exEnvLost exRand i)"
    by simp
  from C4_retry_on_duplicate [OF one d1, THEN conjunct2, THEN conjunct1, rule_format,
      of "[passDoc exDb0 (exAdmin 8) (exBody [15, 17]) 13 14 exServices 500 1800000 (exEnv 1) exRand 1]"]
  have a: "createLoop exDb0 (exAdmin 8) (exBody [15, 17]) 13 14 exServices 500 1800000 (exEnv 1) exRand [] 0
       = \<lparr>lrOutcome = Inr (passDoc exDb0 (exAdmin 8) (exBody [15, 17]) 13 14 exServices 500 1800000
                               (exEnv 1) exRand 1),
          lrDb = exDb0\<lparr>jobs := [passDoc exDb0 (exAdmin 8) (exBody [15, 17]) 13 14 exServices 500
                                     1800000 (exEnv 1) exRand 1]\<rparr>,
          lrRand = exRand, lrWaits = [0], lrAttempts = 1\<rparr>"
    by (simp add: ex_passInsert ex_passBackoff ex_randBefore ex_pass advance_exRand)
  from C4_retry_on_duplicate [OF four d4, THEN conjunct2, THEN conjunct2, THEN conjunct1,
      rule_format, of duplicateKey]
  have b: "createLoop exDb0 (exAdmin 8) (exBody [15, 17]) 13 14 exServices 500 1800000 (exEnv 5) exRand [] 0
       = \<lparr>lrOutcome = Inl duplicateKey, lrDb = exDb0, lrRand = exRand,
          lrWaits = [0, 0, 0, 0], lrAttempts = 4\<rparr>"
    by (simp add: ex_passInsert ex_waits ex_randBefore ex_pass maxCreateAttempts_def)
  from C4_retry_on_duplicate [OF zero d0, THEN conjunct2, THEN conjunct2, THEN conjunct1,
      rule_format, of "JsError None ''connection lost''"]
  have c: "createLoop exDb0 (exAdmin 8) (exBody [15, 17]) 13 14 exServices 500 1800000 exEnvLost exRand [] 0
       = \<lparr>lrOutcome = Inl (JsError None ''connection lost''), lrDb = exDb0, lrRand = exRand,
          lrWaits = [], lrAttempts = 0\<rparr>"
    by (simp add: ex_passInsertLost ex_lostRand)
  have t: "tokenNumber (passDoc exDb0 (exAdmin 8) (exBody [15, 17]) 13 14 exServices 500 1800000
                      (exEnv 1) exRand 1) = ''20260208-AAAAAA''"
    by (simp add: passDoc_def newJob_def ex_passToken)
  from a b c t unitDraws_exRand show ?thesis
    by (simp add: ex_passInsert duplicateKey_def)
qed

end
